theory Spec2Isabelle
  imports Main "HOL-Library.AList"
begin

section \<open>Strings as the handler sees them\<close>

text \<open>
  Python's \<open>str\<close> is modelled as \<open>string\<close>; a character is a code point below 256
  (the Latin-1 range, which holds every literal of the handler). A character outside
  ASCII is written by its code point, \<open>CHR 0xED\<close> for i-acute. The date functions are
  the exception: they take their text as a list of code points of any size.
\<close>

definition isspace :: "char \<Rightarrow> bool" where
  \<comment> \<open>\<open>str.isspace\<close> on the code points below 256.\<close>
  "isspace c = (let n = (of_char c :: nat) in
     (9 \<le> n \<and> n \<le> 13) \<or> (28 \<le> n \<and> n \<le> 32) \<or> n = 133 \<or> n = 160)"

definition strip :: "string \<Rightarrow> string" where
  \<comment> \<open>\<open>str.strip()\<close>: leading and trailing whitespace removed.\<close>
  "strip s = rev (dropWhile isspace (rev (dropWhile isspace s)))"

definition lower_char :: "char \<Rightarrow> char" where
  \<comment> \<open>\<open>str.lower()\<close> on one code point below 256: A-Z and the accented capitals
      0xC0-0xDE (0xD7, the multiplication sign, apart) move up by 32, which sets the
      bit of weight 32.\<close>
  "lower_char c = (let n = (of_char c :: nat) in
     if (65 \<le> n \<and> n \<le> 90) \<or> (192 \<le> n \<and> n \<le> 222 \<and> n \<noteq> 215)
     then (case c of Char b0 b1 b2 b3 b4 b5 b6 b7 \<Rightarrow> Char b0 b1 b2 b3 b4 True b6 b7)
     else c)"

definition lower :: "string \<Rightarrow> string" where
  "lower s = map lower_char s"

fun rfind_aux :: "char \<Rightarrow> string \<Rightarrow> nat \<Rightarrow> int" where
  "rfind_aux c [] k = -1"
| "rfind_aux c (x # xs) k =
     (let r = rfind_aux c xs (Suc k) in
      if r \<noteq> -1 then r else if x = c then int k else -1)"

definition rfind :: "char \<Rightarrow> string \<Rightarrow> nat \<Rightarrow> int" where
  \<comment> \<open>\<open>s.rfind(c, 0, e)\<close>: the highest index below \<open>e\<close> holding \<open>c\<close>, or -1.\<close>
  "rfind c s e = rfind_aux c (take e s) 0"

definition slice_to :: "string \<Rightarrow> int \<Rightarrow> string" where
  \<comment> \<open>\<open>s[:i]\<close>; a negative index counts from the end.\<close>
  "slice_to s i = (if i < 0 then take (nat (int (length s) + i)) s else take (nat i) s)"

definition slice_from :: "string \<Rightarrow> int \<Rightarrow> string" where
  \<comment> \<open>\<open>s[i:]\<close>; a negative index counts from the end.\<close>
  "slice_from s i = (if i < 0 then drop (nat (int (length s) + i)) s else drop (nat i) s)"

section \<open>Numbers as text\<close>

definition digit_char :: "nat \<Rightarrow> char" where
  "digit_char n = ''0123456789'' ! (n mod 10)"

fun str_nat :: "nat \<Rightarrow> string" where
  \<comment> \<open>\<open>str(n)\<close> for a natural number.\<close>
  "str_nat n = (if n < 10 then [digit_char n] else str_nat (n div 10) @ [digit_char n])"

declare str_nat.simps [simp del]

definition pad2 :: "nat \<Rightarrow> string" where
  \<comment> \<open>A number below 100 on two digits, as \<open>%m\<close> and \<open>%d\<close> print it.\<close>
  "pad2 n = [digit_char (n div 10), digit_char n]"

section \<open>Dates: \<open>validar_fecha\<close> and \<open>fecha_sql\<close>\<close>

text \<open>
  The text handed to the date functions is a list of code points of any size: what the
  library does with a character outside Latin-1 matters here, because its \<open>\d\<close> matches
  every decimal digit of Unicode and \<open>int\<close> reads every one of them. \<open>cp\<close> is the code
  point of a character of the program text, \<open>codigos\<close> the code points of a string. The
  text that \<open>strftime\<close> prints is made of ASCII digits and hyphens, and stays a \<open>string\<close>.
\<close>

abbreviation cp :: "char \<Rightarrow> nat" where
  "cp c \<equiv> of_char c"

definition codigos :: "string \<Rightarrow> nat list" where
  "codigos s = map cp s"

definition ceros_decimales :: "nat list" where
  \<comment> \<open>The code point of the digit zero of every script: the decimal digits of Unicode
      (category Nd, version 14.0 of the table, the one of Python 3.11) are the ten code
      points from each of these on, in the order of their values.\<close>
  "ceros_decimales =
     [0x30, 0x660, 0x6F0, 0x7C0, 0x966, 0x9E6, 0xA66, 0xAE6,
      0xB66, 0xBE6, 0xC66, 0xCE6, 0xD66, 0xDE6, 0xE50, 0xED0,
      0xF20, 0x1040, 0x1090, 0x17E0, 0x1810, 0x1946, 0x19D0, 0x1A80,
      0x1A90, 0x1B50, 0x1BB0, 0x1C40, 0x1C50, 0xA620, 0xA8D0, 0xA900,
      0xA9D0, 0xA9F0, 0xAA50, 0xABF0, 0xFF10, 0x104A0, 0x10D30, 0x11066,
      0x110F0, 0x11136, 0x111D0, 0x112F0, 0x11450, 0x114D0, 0x11650, 0x116C0,
      0x11730, 0x118E0, 0x11950, 0x11C50, 0x11D50, 0x11DA0, 0x16A60, 0x16AC0,
      0x16B50, 0x1D7CE, 0x1D7D8, 0x1D7E2, 0x1D7EC, 0x1D7F6, 0x1E140, 0x1E2F0,
      0x1E950, 0x1FBF0]"

definition is_digit :: "nat \<Rightarrow> bool" where
  \<comment> \<open>What \<open>\d\<close> matches in a pattern over \<open>str\<close>.\<close>
  "is_digit c = list_ex (\<lambda>z. z \<le> c \<and> c < z + 10) ceros_decimales"

definition digit_val :: "nat \<Rightarrow> nat" where
  \<comment> \<open>The value \<open>int\<close> gives a decimal digit.\<close>
  "digit_val c =
     (case filter (\<lambda>z. z \<le> c \<and> c < z + 10) ceros_decimales of
        z # _ \<Rightarrow> c - z
      | [] \<Rightarrow> 0)"

text \<open>
  Both functions call \<open>datetime.strptime\<close> of the standard library with the formats
  \<open>%d-%m-%Y\<close> and \<open>%d/%m/%Y\<close>. The library turns a format into a regular expression,
  takes the first match from the start of the string (alternatives in the order written,
  backtracking), and raises \<open>ValueError\<close> when nothing matches, when text remains after
  the match, or when the numbers are no date. The directives are
  \<open>%d = 3[0-1]|[1-2]\d|0[1-9]|[1-9]| [1-9]\<close>, \<open>%m = 1[0-2]|0[1-9]|[1-9]\<close> and
  \<open>%Y = \d\d\d\d\<close>; a class such as \<open>[1-9]\<close> holds ASCII digits only. A matcher returns,
  in order of preference, every way to match at the head of the text: the value that
  \<open>int\<close> reads from the field and the text left.
\<close>

record fecha =
  anio :: nat
  mes :: nat
  dia :: nat

definition is_nonzero_digit :: "nat \<Rightarrow> bool" where
  \<comment> \<open>The class \<open>[1-9]\<close>.\<close>
  "is_nonzero_digit c = (cp CHR ''1'' \<le> c \<and> c \<le> cp CHR ''9'')"

fun re_d :: "nat list \<Rightarrow> (nat \<times> nat list) list" where
  "re_d (a # b # r) =
     (if a = cp CHR ''3'' \<and> (b = cp CHR ''0'' \<or> b = cp CHR ''1'') then [(30 + digit_val b, r)] else []) @
     (if (a = cp CHR ''1'' \<or> a = cp CHR ''2'') \<and> is_digit b then [(10 * digit_val a + digit_val b, r)] else []) @
     (if a = cp CHR ''0'' \<and> is_nonzero_digit b then [(digit_val b, r)] else []) @
     (if is_nonzero_digit a then [(digit_val a, b # r)] else []) @
     (if a = cp CHR '' '' \<and> is_nonzero_digit b then [(digit_val b, r)] else [])"
| "re_d [a] = (if is_nonzero_digit a then [(digit_val a, [])] else [])"
| "re_d [] = []"

fun re_m :: "nat list \<Rightarrow> (nat \<times> nat list) list" where
  "re_m (a # b # r) =
     (if a = cp CHR ''1'' \<and> (b = cp CHR ''0'' \<or> b = cp CHR ''1'' \<or> b = cp CHR ''2'') then [(10 + digit_val b, r)] else []) @
     (if a = cp CHR ''0'' \<and> is_nonzero_digit b then [(digit_val b, r)] else []) @
     (if is_nonzero_digit a then [(digit_val a, b # r)] else [])"
| "re_m [a] = (if is_nonzero_digit a then [(digit_val a, [])] else [])"
| "re_m [] = []"

fun re_Y :: "nat list \<Rightarrow> (nat \<times> nat list) list" where
  "re_Y (a # b # c # d # r) =
     (if is_digit a \<and> is_digit b \<and> is_digit c \<and> is_digit d
      then [(1000 * digit_val a + 100 * digit_val b + 10 * digit_val c + digit_val d, r)]
      else [])"
| "re_Y _ = []"

fun re_lit :: "nat \<Rightarrow> nat list \<Rightarrow> nat list list" where
  "re_lit c (a # r) = (if a = c then [r] else [])"
| "re_lit c [] = []"

definition re_dmY :: "nat \<Rightarrow> nat list \<Rightarrow> (nat \<times> nat \<times> nat \<times> nat list) list" where
  \<comment> \<open>Every match of \<open>%d<sep>%m<sep>%Y\<close> at the head of the text, the preferred first.\<close>
  "re_dmY sep s =
     concat (map (\<lambda>(d, r1).
       concat (map (\<lambda>r2.
         concat (map (\<lambda>(m, r3).
           concat (map (\<lambda>r4.
             map (\<lambda>(y, r5). (d, m, y, r5)) (re_Y r4))
           (re_lit sep r3)))
         (re_m r2)))
       (re_lit sep r1)))
     (re_d s))"

definition is_leap :: "nat \<Rightarrow> bool" where
  "is_leap y = (y mod 4 = 0 \<and> (y mod 100 \<noteq> 0 \<or> y mod 400 = 0))"

definition days_in_month :: "nat \<Rightarrow> nat \<Rightarrow> nat" where
  "days_in_month y m =
     (if m = 2 then (if is_leap y then 29 else 28)
      else if m = 4 \<or> m = 6 \<or> m = 9 \<or> m = 11 then 30 else 31)"

definition fecha_posible :: "fecha \<Rightarrow> bool" where
  \<comment> \<open>What the constructor of \<open>date\<close> accepts: years 1 to 9999, a day of the month.\<close>
  "fecha_posible f =
     (1 \<le> anio f \<and> anio f \<le> 9999 \<and> 1 \<le> mes f \<and> mes f \<le> 12
      \<and> 1 \<le> dia f \<and> dia f \<le> days_in_month (anio f) (mes f))"

definition strptime :: "nat \<Rightarrow> nat list \<Rightarrow> fecha option" where
  \<comment> \<open>\<open>datetime.strptime(s, '%d<sep>%m<sep>%Y').date()\<close>; \<open>None\<close> is \<open>ValueError\<close>.\<close>
  "strptime sep s =
     (case re_dmY sep s of
        [] \<Rightarrow> None
      | (d, m, y, rest) # _ \<Rightarrow>
          if rest \<noteq> [] then None
          else (let f = \<lparr>anio = y, mes = m, dia = d\<rparr> in
                if fecha_posible f then Some f else None))"

definition strftime :: "fecha \<Rightarrow> string" where
  \<comment> \<open>\<open>strftime('%Y-%m-%d')\<close>. The C library of the Linux runtime prints \<open>%Y\<close> without
      padding, so a year below 1000 has fewer than four digits.\<close>
  "strftime f = str_nat (anio f) @ ''-'' @ pad2 (mes f) @ ''-'' @ pad2 (dia f)"

definition validar_fecha :: "nat list \<Rightarrow> fecha option" where
  "validar_fecha cadena_fecha =
     (case strptime (cp CHR ''-'') cadena_fecha of
        Some fecha_obj \<Rightarrow> Some fecha_obj
      | None \<Rightarrow>
          (case strptime (cp CHR ''/'') cadena_fecha of
             Some fecha_obj \<Rightarrow> Some fecha_obj
           | None \<Rightarrow> None))"

fun fecha_sql_loop :: "nat list \<Rightarrow> nat list \<Rightarrow> string option" where
  "fecha_sql_loop [] cadena_fecha = None"
| "fecha_sql_loop (formato # formatos) cadena_fecha =
     (case strptime formato cadena_fecha of
        Some fecha_obj \<Rightarrow> Some (strftime fecha_obj)
      | None \<Rightarrow> fecha_sql_loop formatos cadena_fecha)"

definition fecha_sql :: "nat list \<Rightarrow> string option" where
  "fecha_sql cadena_fecha = fecha_sql_loop [cp CHR ''-'', cp CHR ''/''] cadena_fecha"


section \<open>The shortcut table: \<open>agregar_opciones\<close>\<close>

text \<open>
  A Python dictionary with string keys is an association list in insertion order;
  \<open>AList.update\<close> is the assignment \<open>d[k] = v\<close> (the key keeps its place, a new key goes
  last). \<open>paso_default\<close> is either one step for every option or a dictionary.
\<close>

datatype paso = Paso string | Pasos "(string \<times> string) list"

definition agregar_opciones ::
  "(string \<times> string) list \<Rightarrow> string list \<Rightarrow> paso \<Rightarrow> (string \<times> string) list" where
  "agregar_opciones historial opciones paso_default =
     (let paso_default =
            (case paso_default of
               Pasos d \<Rightarrow> d
             | Paso p \<Rightarrow> foldl (\<lambda>d opcion. AList.update (lower opcion) p d) [] opciones);
          historial_actualizado = (if historial \<noteq> [] then historial else [])
      in foldl (\<lambda>h opcion.
                  let opcion_min = lower opcion
                  in AList.update opcion_min
                       (case map_of paso_default opcion_min of Some p \<Rightarrow> p | None \<Rightarrow> ''start'') h)
           historial_actualizado opciones)"

definition resolver :: "(string \<times> string) list option \<Rightarrow> string \<Rightarrow> string \<Rightarrow> string" where
  \<comment> \<open>The lookup before dispatch: a message that is a key of \<open>historial\<close> replaces the step.\<close>
  "resolver historial mensaje_decoded step =
     (case historial of
        None \<Rightarrow> step
      | Some h \<Rightarrow> (case map_of h mensaje_decoded of Some p \<Rightarrow> p | None \<Rightarrow> step))"


section \<open>The fields of a date\<close>





section \<open>The message segmenter\<close>

text \<open>
  \<open>dividir_mensaje\<close> is a \<open>while\<close> loop that appends to \<open>trozos\<close>. Nothing in its body
  forces the message to shrink, so the loop is a partial function: \<open>None\<close> is the run that
  never leaves the loop.
\<close>

partial_function (option) dividir_loop :: "nat \<Rightarrow> string \<Rightarrow> string list \<Rightarrow> string list option" where
  "dividir_loop max_length mensaje trozos =
     (if length mensaje > max_length then
        (let corte = rfind CHR '' '' mensaje max_length;
             corte = (if corte = -1 then rfind CHR ''.'' mensaje max_length + 1 else corte);
             corte = (if corte = -1 then int max_length else corte)
         in dividir_loop max_length (strip (slice_from mensaje corte))
              (trozos @ [strip (slice_to mensaje corte)]))
      else Some (trozos @ [mensaje]))"

declare dividir_loop.simps [code]

definition dividir_mensaje :: "string \<Rightarrow> nat \<Rightarrow> string list option" where
  "dividir_mensaje mensaje max_length = dividir_loop max_length mensaje []"

definition sin_corte :: "nat \<Rightarrow> string \<Rightarrow> bool" where
  \<comment> \<open>The loop state that repeats itself: too long, no space and no full stop in the
      window, nothing for \<open>strip\<close> to remove.\<close>
  "sin_corte max_length mensaje =
     (length mensaje > max_length \<and> rfind CHR '' '' mensaje max_length = -1
      \<and> rfind CHR ''.'' mensaje max_length = -1 \<and> strip mensaje = mensaje)"

definition sin_espacios :: "string \<Rightarrow> string" where
  \<comment> \<open>The text with every whitespace character taken out: what \<open>strip\<close> cannot change.\<close>
  "sin_espacios s = filter (\<lambda>c. \<not> isspace c) s"

section \<open>More string functions of the handler\<close>

definition is_cased :: "char \<Rightarrow> bool" where
  \<comment> \<open>The code points below 256 that \<open>str.title()\<close> treats as letters with case.\<close>
  "is_cased c = (let n = (of_char c :: nat) in
     (65 \<le> n \<and> n \<le> 90) \<or> (97 \<le> n \<and> n \<le> 122) \<or> n = 170 \<or> n = 181 \<or> n = 186
     \<or> (192 \<le> n \<and> n \<le> 214) \<or> (216 \<le> n \<and> n \<le> 246) \<or> (248 \<le> n \<and> n \<le> 255))"

definition upper_char :: "char \<Rightarrow> char" where
  \<comment> \<open>Title case of one code point: a-z and 0xE0-0xFE (0xF7 apart) move down by 32.
      The three code points whose title case lies above 255 (0xB5, 0xDF, 0xFF) are left
      as they are; no literal of the handler holds them.\<close>
  "upper_char c = (let n = (of_char c :: nat) in
     if (97 \<le> n \<and> n \<le> 122) \<or> (224 \<le> n \<and> n \<le> 254 \<and> n \<noteq> 247)
     then (case c of Char b0 b1 b2 b3 b4 b5 b6 b7 \<Rightarrow> Char b0 b1 b2 b3 b4 False b6 b7)
     else c)"

fun title_aux :: "bool \<Rightarrow> string \<Rightarrow> string" where
  "title_aux previous_is_cased [] = []"
| "title_aux previous_is_cased (c # cs) =
     (if previous_is_cased then lower_char c else upper_char c) # title_aux (is_cased c) cs"

definition title :: "string \<Rightarrow> string" where
  \<comment> \<open>\<open>str.title()\<close>\<close>
  "title s = title_aux False s"

definition startswith :: "string \<Rightarrow> string \<Rightarrow> bool" where
  "startswith s p = (take (length p) s = p)"

definition endswith :: "string \<Rightarrow> string \<Rightarrow> bool" where
  "endswith s p = (length p \<le> length s \<and> drop (length s - length p) s = p)"

definition rstrip_char :: "char \<Rightarrow> string \<Rightarrow> string" where
  "rstrip_char c s = rev (dropWhile (\<lambda>x. x = c) (rev s))"

definition lstrip_char :: "char \<Rightarrow> string \<Rightarrow> string" where
  "lstrip_char c s = dropWhile (\<lambda>x. x = c) s"

function replace :: "string \<Rightarrow> string \<Rightarrow> string \<Rightarrow> string" where
  \<comment> \<open>\<open>s.replace(old, new)\<close> for a non-empty \<open>old\<close>.\<close>
  "replace old new [] = []"
| "replace old new (c # cs) =
     (if old \<noteq> [] \<and> startswith (c # cs) old
      then new @ replace old new (drop (length old) (c # cs))
      else c # replace old new cs)"
  by pat_completeness auto
termination
  by (relation "measure (\<lambda>(old, new, s). length s)") auto

definition correo_es_valido :: "string \<Rightarrow> bool" where
  \<comment> \<open>\<open>re.match(r"[^@]+@[^@]+\.[^@]+", correo)\<close>: a non-empty run without \<open>@\<close>, an
      \<open>@\<close>, and in the run without \<open>@\<close> that follows a full stop that is neither its
      first nor its last character. The match need not reach the end of the text.\<close>
  "correo_es_valido correo =
     (let local_part = takeWhile (\<lambda>c. c \<noteq> CHR ''@'') correo;
          resto = dropWhile (\<lambda>c. c \<noteq> CHR ''@'') correo
      in local_part \<noteq> [] \<and>
         (case resto of
            [] \<Rightarrow> False
          | _ # r \<Rightarrow> CHR ''.'' \<in> set (butlast (tl (takeWhile (\<lambda>c. c \<noteq> CHR ''@'') r)))))"

definition parentesco_valido :: "string \<Rightarrow> bool" where
  "parentesco_valido cadena =
     (lower (strip cadena) \<in> set (map lower
        [''Madre'', ''Padre'', ''Esposo'', ''Esposa'', ''Hijo'', ''Hija'', ''Hermano'', ''Hermana'']))"

definition modelo_es_valido :: "string \<Rightarrow> bool" where
  "modelo_es_valido model = (strip model \<noteq> [])"

section \<open>The data of a turn\<close>

text \<open>
  \<open>usuario\<close> is the dictionary stored per chat. The five keys every profile is created
  with are plain fields; a key that may be absent is an option, and reading it when it is
  absent is \<open>KeyError\<close>. Field \<open>u_k\<close> is the key \<open>k\<close>.
\<close>

record usuario =
  u_step :: string
  u_monto :: string
  u_nombre :: string
  u_fecha :: string
  u_modo :: string
  u_cotiza :: "string option"
  u_rol :: "string option"
  u_master :: "string option"
  u_developer :: "string option"
  u_historial :: "(string \<times> string) list option"
  u_model :: "string option"
  u_poliza :: "string option"
  u_email :: "string option"
  u_sexo :: "string option"
  u_bcuenta :: "int option"
  u_beneficiario :: "string option"
  u_parentesco :: "string option"
  u_bfecha :: "string option"
  u_plan :: "string option"
  u_monto2 :: "string option"
  u_monto3 :: "string option"
  u_categoria :: "string option"
  u_subcategoria :: "string option"
  u_opciones :: "string list option"
  u_companies :: "string list option"
  u_documents :: "(string \<times> string) list option"
  u_base_path :: "string option"

definition usuario_nuevo :: "string \<Rightarrow> usuario" where
  \<comment> \<open>\<open>{'step': 'start', 'monto': '', 'nombre': nombre, 'fecha': '', 'modo': 'normal',
      'cotiza': ''}\<close>\<close>
  "usuario_nuevo nombre =
     \<lparr>u_step = ''start'', u_monto = [], u_nombre = nombre, u_fecha = [], u_modo = ''normal'',
      u_cotiza = Some [], u_rol = None, u_master = None, u_developer = None,
      u_historial = None, u_model = None, u_poliza = None, u_email = None, u_sexo = None,
      u_bcuenta = None, u_beneficiario = None, u_parentesco = None, u_bfecha = None,
      u_plan = None, u_monto2 = None, u_monto3 = None, u_categoria = None,
      u_subcategoria = None, u_opciones = None, u_companies = None, u_documents = None,
      u_base_path = None\<rparr>"

datatype py_error =
    KeyError string
  | NameError string
  | UnboundLocalError string
  | HTTPError
  | URLError

datatype fallo = Raise py_error | NoRetorna

datatype valor = Str string | Num int | Nulo

datatype accion =
    SendText string
  | SendButtons string "(string \<times> string) list"
  | SendMenu string "string list"
  | SendDocument string string "string option"

text \<open>
  The inbound message as the handler reads it from the body: the chat id as text, the
  text, the two names of the sender, and the data of a pressed button when the message
  carries one.
\<close>

record evento =
  e_chat_id :: string
  e_text :: string
  e_first_name :: string
  e_last_name :: string
  e_callback_data :: "string option"

text \<open>
  The collaborators. Each is a function of the handler's environment: the profile store
  before the turn, the instructions stored under the operator key, the three calls of the
  quote service (an empty id is a failure), the PDF service (which re-raises the HTTP or
  URL error), the two assistants and the document catalogue (\<open>None\<close> on an error).
\<close>

record env =
  recuperar_usuario :: "string \<Rightarrow> usuario option"
  instrucciones_deyna :: "string option"
  cotizar :: "(string \<times> valor) list \<Rightarrow> string"
  agregar_beneficiario :: "(string \<times> valor) list \<Rightarrow> string"
  asignar_a_analista :: "(string \<times> valor) list \<Rightarrow> string"
  generar_pdf :: "string \<Rightarrow> py_error + string"
  pregunta_a_chatgpt :: "string \<Rightarrow> string \<Rightarrow> string"
  pregunta_a_gandalf :: "string \<Rightarrow> string \<Rightarrow> string"
  obtener_documentos :: "string \<Rightarrow> string list option"

text \<open>
  The local variables of a turn and what the turn has done so far: the messages sent, in
  order, the profiles written to the store, in order, and the instructions written under
  the operator key.
\<close>

record turno =
  t_usuario :: usuario
  t_text :: "string option"
  t_botones :: "(string \<times> string) list"
  t_opciones :: "string list"
  t_url_pdf :: "string option"
  t_pdf_file :: "string option"
  t_enviados :: "accion list"
  t_guardados :: "(string \<times> usuario) list"
  t_instrucciones :: "string list"

type_synonym paso_res = "(fallo \<times> turno) + turno"

datatype resultado = Respuesta nat string | Excepcion py_error | SinRetorno

record salida =
  s_resultado :: resultado
  s_enviados :: "accion list"
  s_guardados :: "(string \<times> usuario) list"
  s_instrucciones :: "string list"

definition enviar_mensaje_telegram ::
  "string \<Rightarrow> string \<Rightarrow> (string \<times> string) list \<Rightarrow> string option \<Rightarrow> string option
     \<Rightarrow> string list \<Rightarrow> accion" where
  \<comment> \<open>Which of the four kinds of message goes out. The text is the one passed in, before
      the transport rewrites \<open>*bold*\<close> into HTML; \<open>None\<close>, \<open>{}\<close> and \<open>''\<close> are all false.\<close>
  "enviar_mensaje_telegram chat mensaje botones url_pdf pdf_file opciones =
     (case (if url_pdf = Some [] then None else url_pdf) of
        Some url \<Rightarrow> SendDocument mensaje url pdf_file
      | None \<Rightarrow>
          if botones \<noteq> [] then SendButtons mensaje botones
          else if opciones \<noteq> [] then SendMenu mensaje opciones
          else SendText mensaje)"

definition enviar :: "accion \<Rightarrow> turno \<Rightarrow> turno" where
  "enviar a t = t\<lparr>t_enviados := t_enviados t @ [a]\<rparr>"

definition enviar_respuesta :: "string \<Rightarrow> turno \<Rightarrow> turno" where
  \<comment> \<open>\<open>enviar_mensaje_telegram(sender, respuesta['text'], botones, url_pdf, pdf_file,
      opciones)\<close> with the variables as they stand.\<close>
  "enviar_respuesta sender t =
     enviar (enviar_mensaje_telegram sender (case t_text t of Some s \<Rightarrow> s | None \<Rightarrow> [])
               (t_botones t) (t_url_pdf t) (t_pdf_file t) (t_opciones t)) t"

definition guardar_usuario :: "string \<Rightarrow> turno \<Rightarrow> turno" where
  "guardar_usuario user_id t = t\<lparr>t_guardados := t_guardados t @ [(user_id, t_usuario t)]\<rparr>"

definition usr :: "(usuario \<Rightarrow> usuario) \<Rightarrow> turno \<Rightarrow> turno" where
  \<comment> \<open>An assignment to keys of \<open>usuario\<close>.\<close>
  "usr f t = t\<lparr>t_usuario := f (t_usuario t)\<rparr>"

definition responder :: "string \<Rightarrow> turno \<Rightarrow> turno" where
  \<comment> \<open>\<open>respuesta['text'] = s\<close>\<close>
  "responder s t = t\<lparr>t_text := Some s\<rparr>"

definition historial_de :: "usuario \<Rightarrow> (string \<times> string) list" where
  \<comment> \<open>\<open>usuario.get('historial', {})\<close>\<close>
  "historial_de u = (case u_historial u of Some h \<Rightarrow> h | None \<Rightarrow> [])"

definition botones_ayuda :: "string \<Rightarrow> (string \<times> string) list" where
  \<comment> \<open>The three buttons after an answer; the third reads by role.\<close>
  "botones_ayuda rol =
     (if rol = ''admin'' \<or> rol = ''developer''
      then [(''Si'', ''Si''), (''No'', ''No''), (''Cotiza'', ''Volver'')]
      else [(''Si'', ''Si''), (''No'', ''No''), (''Cotiza'', ''Volver a cotizar'')])"

definition opciones_area :: "string list" where
  "opciones_area = [''Riesgos'', ''Soporte al Cliente'', ''Administracion'', ''Hablar con TUBOT'']"

section \<open>The texts of the handler\<close>

definition msg_bienvenida :: "string" where
  \<comment> \<open>line 740\<close>
  "msg_bienvenida =
     ''Hola, espero te encuentres bien. Soy *TUBOT*, ejecutivo virtual de *TUEMPRESA*. Es un gusto para m'' @ [CHR 0xED] @ '' atenderte para ofrecerte diferentes opciones de seguros de salud.''"

definition msg_pide_nombre :: "string" where
  \<comment> \<open>line 743\<close>
  "msg_pide_nombre =
     [CHR 0xBF] @ ''Ser'' @ [CHR 0xED] @ ''a tan amable de darme su nombre y apellido?''"

definition msg_hola_admin :: "string \<Rightarrow> string" where
  \<comment> \<open>line 747\<close>
  "msg_hola_admin nombre =
     ''Hola *'' @ nombre @ ''*, espero te encuentres bien. Soy *TUBOT*, ejecutivo virtual de *TUEMPRESA*.''"

definition msg_pregunta_area :: "string" where
  \<comment> \<open>line 749\<close>
  "msg_pregunta_area =
     [CHR 0xBF] @ ''En qu'' @ [CHR 0xE9] @ '' '' @ [CHR 0xE1] @ ''rea te puedo ayudar?''"

definition msg_hola_developer :: "string \<Rightarrow> string" where
  \<comment> \<open>line 756\<close>
  "msg_hola_developer nombre =
     ''Hola *'' @ nombre @ ''*, soy *TUBOTSECUNDARIO*, preg'' @ [CHR 0xFA] @ ''ntame lo que quieras''"

definition msg_hola_usuario :: "string \<Rightarrow> string" where
  \<comment> \<open>line 760\<close>
  "msg_hola_usuario nombre =
     ''Hola *'' @ nombre @ ''*, espero te encuentres bien. Soy *TUBOT*, ejecutivo virtual de *TUEMPRESA*. Es un gusto para m'' @ [CHR 0xED] @ '' atenderte para ofrecerte diferentes opciones de seguros de salud.''"

definition msg_pide_fecha :: "string" where
  \<comment> \<open>line 763\<close>
  "msg_pide_fecha =
     [CHR 0xBF] @ ''Ser'' @ [CHR 0xED] @ ''a tan amable de indicarme su fecha de nacimiento?''"

definition msg_pregunta_rol :: "string" where
  \<comment> \<open>line 771\<close>
  "msg_pregunta_rol =
     [CHR 0xBF] @ ''Con que rol quieres interactuar conmigo?''"

definition msg_adelante :: "string" where
  \<comment> \<open>line 782\<close>
  "msg_adelante =
     ''Estoy aqui para responder tus preguntas. Adelante.''"

definition msg_gusto :: "string \<Rightarrow> string" where
  \<comment> \<open>line 790\<close>
  "msg_gusto nombre =
     ''Un gusto *'' @ nombre @ ''*. Tambi'' @ [CHR 0xE9] @ ''n ind'' @ [CHR 0xED] @ ''came tu fecha de nacimiento:''"

definition msg_pide_correo :: "string" where
  \<comment> \<open>line 797\<close>
  "msg_pide_correo =
     ''Y ahora tu correo electr'' @ [CHR 0xF3] @ ''nico.''"

definition msg_fecha_incorrecta :: "string" where
  \<comment> \<open>line 800\<close>
  "msg_fecha_incorrecta =
     ''La fecha no es correcta, por favor ingresa una fecha valida (DD/MM/AAAA).''"

definition msg_analista :: "string \<Rightarrow> string \<Rightarrow> string" where
  \<comment> \<open>line 816\<close>
  "msg_analista nombre poliza =
     ''Gracias '' @ nombre @ '', voy a dirigir tu llamada a un analista para una p'' @ [CHR 0xF3] @ ''liza de '' @ poliza @ ''. '' @ [CHR 0xBF] @ ''Tienes alguna otra pregunta para m'' @ [CHR 0xED] @ ''?''"

definition msg_pide_correo_contacto :: "string" where
  \<comment> \<open>line 826\<close>
  "msg_pide_correo_contacto =
     ''Proporciona un correo electr'' @ [CHR 0xF3] @ ''nico para contactarte''"

definition msg_pide_genero :: "string" where
  \<comment> \<open>line 832\<close>
  "msg_pide_genero =
     ''Por '' @ [CHR 0xFA] @ ''ltimo, selecciona tu g'' @ [CHR 0xE9] @ ''nero:''"

definition msg_correo_invalido :: "string" where
  \<comment> \<open>line 839\<close>
  "msg_correo_invalido =
     ''El correo electr'' @ [CHR 0xF3] @ ''nico ingresado no es v'' @ [CHR 0xE1] @ ''lido. Por favor, ingresa un correo electr'' @ [CHR 0xF3] @ ''nico v'' @ [CHR 0xE1] @ ''lido.''"

definition msg_agregar_familiar :: "string" where
  \<comment> \<open>line 845\<close>
  "msg_agregar_familiar =
     [CHR 0xBF] @ ''Desea agregar a un familiar a la cotizaci'' @ [CHR 0xF3] @ ''n?''"

definition msg_pide_parentesco :: "string" where
  \<comment> \<open>line 855\<close>
  "msg_pide_parentesco =
     ''Escribe el parentesco (Madre, Padre, Esposo, Esposa, Hijo, Hija, Hermano o Hermana):''"

definition msg_sin_mas_familiares :: "string" where
  \<comment> \<open>line 858\<close>
  "msg_sin_mas_familiares =
     ''Ha elegido no agregar m'' @ [CHR 0xE1] @ ''s familiares. Proceder'' @ [CHR 0xE9] @ '' a preparar su cotizaci'' @ [CHR 0xF3] @ ''n.''"

definition msg_pide_fecha_familiar :: "string \<Rightarrow> string" where
  \<comment> \<open>line 868\<close>
  "msg_pide_fecha_familiar parentesco =
     ''Escribe la fecha de nacimiento de tu '' @ parentesco @ '':''"

definition msg_parentesco_incorrecto :: "string" where
  \<comment> \<open>line 871\<close>
  "msg_parentesco_incorrecto =
     ''El parentesco no es correcto. Por favor, escribe alguna de estas opciones: Madre, Padre, Esposo, Esposa, Hijo, Hija, Hermano o Hermana''"

definition msg_agregar_otro_familiar :: "string" where
  \<comment> \<open>line 885\<close>
  "msg_agregar_otro_familiar =
     [CHR 0xBF] @ ''Desea agregar a otro familiar a la cotizaci'' @ [CHR 0xF3] @ ''n?''"

definition msg_enviando_cotizacion :: "string" where
  \<comment> \<open>line 896\<close>
  "msg_enviando_cotizacion =
     ''Perfecto, en este momento le estoy enviando un cuadro de cotizaci'' @ [CHR 0xF3] @ ''n para que proceda con su revisi'' @ [CHR 0xF3] @ ''n.''"

definition msg_cotizacion_lista :: "string \<Rightarrow> string" where
  \<comment> \<open>line 926\<close>
  "msg_cotizacion_lista id_cotizacion =
     ''Tu cotizaci'' @ [CHR 0xF3] @ ''n '' @ id_cotizacion @ '' ya est'' @ [CHR 0xE1] @ '' lista. Puedes verla aqu'' @ [CHR 0xED] @ ''.''"

definition msg_error_cotizacion :: "string" where
  \<comment> \<open>line 932\<close>
  "msg_error_cotizacion =
     ''Hubo un error al procesar tu cotizaci'' @ [CHR 0xF3] @ ''n.''"

definition msg_otras_cotizaciones :: "string" where
  \<comment> \<open>line 936\<close>
  "msg_otras_cotizaciones =
     ''Por otro lado, le estoy enviando otras cotizaciones que puedan adaptarse a su presupuesto''"

definition msg_cotizacion_procesada :: "string" where
  \<comment> \<open>line 980\<close>
  "msg_cotizacion_procesada =
     ''Tu cotizaci'' @ [CHR 0xF3] @ ''n ha sido procesada con '' @ [CHR 0xE9] @ ''xito. '' @ [CHR 0xBF] @ ''Tienes alguna otra pregunta para m'' @ [CHR 0xED] @ ''?''"

definition msg_otra_pregunta_para_mi :: "string" where
  \<comment> \<open>line 989\<close>
  "msg_otra_pregunta_para_mi =
     [CHR 0xBF] @ ''Tienes alguna otra pregunta para m'' @ [CHR 0xED] @ ''?''"

definition msg_gracias_contactarme :: "string" where
  \<comment> \<open>line 1009\<close>
  "msg_gracias_contactarme =
     [CHR 0xA1] @ ''Gracias por contactarme! Si necesitas m'' @ [CHR 0xE1] @ ''s ayuda en el futuro, no dudes en escribirme.''"

definition msg_gracias_contactarnos :: "string" where
  \<comment> \<open>line 1011\<close>
  "msg_gracias_contactarnos =
     [CHR 0xA1] @ ''Gracias por contactarnos! Si necesitas m'' @ [CHR 0xE1] @ ''s ayuda en el futuro, no dudes en escribirnos.''"

definition msg_volver_consultar :: "string" where
  \<comment> \<open>line 1016\<close>
  "msg_volver_consultar =
     [CHR 0xA1] @ ''Seguro! Solo escribeme *Hola* otra vez cuando quieras volver a consultar..''"

definition msg_volver_cotizar :: "string" where
  \<comment> \<open>line 1018\<close>
  "msg_volver_cotizar =
     [CHR 0xA1] @ ''Seguro! Solo escribeme *Hola* otra vez cuando quieras volver a cotizar..''"

definition msg_gandalf :: "string" where
  \<comment> \<open>line 1023\<close>
  "msg_gandalf =
     ''Preg'' @ [CHR 0xFA] @ ''ntame lo que quieras. Soy *Gandalf el Blanco*.''"

definition msg_escribe_pregunta :: "string" where
  \<comment> \<open>line 1025\<close>
  "msg_escribe_pregunta =
     ''Por favor, escribe tu pregunta a continuaci'' @ [CHR 0xF3] @ ''n.''"

definition msg_cotizar_de_nuevo :: "string" where
  \<comment> \<open>line 1032\<close>
  "msg_cotizar_de_nuevo =
     [CHR 0xA1] @ ''Bien! Vamos a cotizar de nuevo...''"

definition msg_otra_pregunta :: "string" where
  \<comment> \<open>line 1086\<close>
  "msg_otra_pregunta =
     [CHR 0xBF] @ ''Tienes otra pregunta?''"

definition msg_proxima_pregunta :: "string" where
  \<comment> \<open>line 1103\<close>
  "msg_proxima_pregunta =
     [CHR 0xA1] @ ''Muy bien! Haz tu pr'' @ [CHR 0xF3] @ ''xima pregunta.''"

definition msg_podemos_cotizar :: "string" where
  \<comment> \<open>line 1107\<close>
  "msg_podemos_cotizar =
     [CHR 0xA1] @ ''Seguro! Podemos volver a cotizar.''"

definition msg_pregunta_subarea :: "string" where
  \<comment> \<open>line 1116\<close>
  "msg_pregunta_subarea =
     [CHR 0xBF] @ ''En qu'' @ [CHR 0xE9] @ '' sub'' @ [CHR 0xE1] @ ''rea te puedo ayudar?''"

definition msg_selecciona_subcategoria :: "string" where
  \<comment> \<open>line 1129\<close>
  "msg_selecciona_subcategoria =
     ''Selecciona una subcategor'' @ [CHR 0xED] @ ''a:''"

definition msg_hola_maestro :: "string" where
  \<comment> \<open>line 1162\<close>
  "msg_hola_maestro =
     [CHR 0xA1] @ ''Hola Maestro! '' @ [CHR 0xBF] @ ''Que nueva instrucci'' @ [CHR 0xF3] @ ''n o sugerencia quieres que aprenda?''"

definition msg_memorizando :: "string" where
  \<comment> \<open>line 1166\<close>
  "msg_memorizando =
     ''Memorizando. Espera un momento por favor...''"

definition msg_conocimiento_actualizado :: "string" where
  \<comment> \<open>line 1175\<close>
  "msg_conocimiento_actualizado =
     ''Mi base de conocimiento ha sido actualizada con '' @ [CHR 0xE9] @ ''xito.''"

definition msg_sin_instrucciones :: "string" where
  \<comment> \<open>line 1178\<close>
  "msg_sin_instrucciones =
     ''Mi base de conocimiento no tiene instrucciones. Algo anda mal con mi servidor.''"

definition msg_selecciona_aseguradora :: "string" where
  \<comment> \<open>line 1203\<close>
  "msg_selecciona_aseguradora =
     ''Selecciona una aseguradora:''"

definition msg_selecciona_archivo :: "string" where
  \<comment> \<open>line 1213\<close>
  "msg_selecciona_archivo =
     ''Selecciona un archivo o carpeta:''"

definition msg_aqui_documento :: "string" where
  \<comment> \<open>line 1220\<close>
  "msg_aqui_documento =
     ''Aqu'' @ [CHR 0xED] @ '' est'' @ [CHR 0xE1] @ '' el documento que solicitaste''"

definition msg_opcion_no_valida :: "string" where
  \<comment> \<open>line 1223\<close>
  "msg_opcion_no_valida =
     ''Opci'' @ [CHR 0xF3] @ ''n no v'' @ [CHR 0xE1] @ ''lida. Selecciona una opci'' @ [CHR 0xF3] @ ''n v'' @ [CHR 0xE1] @ ''lida.''"

definition msg_subcategoria_no_reconocida :: "string" where
  \<comment> \<open>line 1225\<close>
  "msg_subcategoria_no_reconocida =
     ''Subcategor'' @ [CHR 0xED] @ ''a no reconocida. Elige una opci'' @ [CHR 0xF3] @ ''n v'' @ [CHR 0xE1] @ ''lida.''"

definition msg_documento_no_valido :: "string" where
  \<comment> \<open>line 1273\<close>
  "msg_documento_no_valido =
     ''Documento no v'' @ [CHR 0xE1] @ ''lido o carpeta vacia. Intente de nuevo.''"

definition msg_no_entiendo :: "string" where
  \<comment> \<open>line 1292\<close>
  "msg_no_entiendo =
     ''No entiendo tu mensaje. Escribe *hola* para empezar de nuevo.''"

definition msg_con_otra_pregunta :: "string \<Rightarrow> string" where
  \<comment> \<open>lines 1040 and 1058\<close>
  "msg_con_otra_pregunta respuesta_chatgpt =
     respuesta_chatgpt @ [CHR 0x0A, CHR 0x0A, CHR 0xBF] @ ''Tienes otra pregunta?''"

section \<open>The transition rules\<close>

text \<open>
  Each branch of the \<open>if\<close>/\<open>elif\<close> chain of \<open>lambda_handler\<close> is one definition, named
  after the condition that selects it. A rule returns the turn as it stands at the end of
  the branch, or the failure together with the turn as it stood when the failure happened.
\<close>

definition texto :: "turno \<Rightarrow> string" where
  "texto t = (case t_text t of Some s \<Rightarrow> s | None \<Rightarrow> [])"

definition enviar_con ::
  "string \<Rightarrow> (string \<times> string) list \<Rightarrow> string option \<Rightarrow> string option \<Rightarrow> string list
     \<Rightarrow> turno \<Rightarrow> turno" where
  \<comment> \<open>\<open>enviar_mensaje_telegram(sender, respuesta['text'], ...)\<close> with the arguments given.\<close>
  "enviar_con sender botones url_pdf pdf_file opciones t =
     enviar (enviar_mensaje_telegram sender (texto t) botones url_pdf pdf_file opciones) t"

definition leer :: "string \<Rightarrow> 'a option \<Rightarrow> turno \<Rightarrow> ('a \<Rightarrow> paso_res) \<Rightarrow> paso_res" where
  \<comment> \<open>\<open>usuario[k]\<close>: the value, or \<open>KeyError\<close> when the key is absent.\<close>
  "leer k v t f = (case v of None \<Rightarrow> Inl (Raise (KeyError k), t) | Some x \<Rightarrow> f x)"

definition valor_de :: "string option \<Rightarrow> valor" where
  "valor_de v = (case v of Some s \<Rightarrow> Str s | None \<Rightarrow> Nulo)"

definition rule_start :: "string \<Rightarrow> string \<Rightarrow> string \<Rightarrow> turno \<Rightarrow> paso_res" where
  \<comment> \<open>lines 736-764\<close>
  "rule_start sender nombre rol t =
     (let t = usr (\<lambda>u. u\<lparr>u_poliza := Some ''Salud'', u_cotiza := Some []\<rparr>) t in
      if nombre = [] then
        (let t = responder msg_bienvenida t;
             t = enviar_respuesta sender t;
             t = responder msg_pide_nombre t;
             t = usr (\<lambda>u. u\<lparr>u_step := ''askedWelcome''\<rparr>) t
         in Inr t)
      else if rol = ''admin'' then
        (let t = responder (msg_hola_admin nombre) t;
             t = enviar_respuesta sender t;
             t = responder msg_pregunta_area t;
             t = t\<lparr>t_opciones := opciones_area\<rparr>;
             t = usr (\<lambda>u. u\<lparr>u_historial :=
                   Some (agregar_opciones (historial_de u) opciones_area (Paso ''askedAdmin''))\<rparr>) t;
             t = enviar_con sender [] None None (t_opciones t) t;
             t = responder [] t;
             t = usr (\<lambda>u. u\<lparr>u_step := ''askedAdmin''\<rparr>) t
         in Inr t)
      else if rol = ''developer'' then
        (let t = responder (msg_hola_developer nombre) t;
             t = usr (\<lambda>u. u\<lparr>u_step := ''waitForQuestion'', u_modo := ''gandalf''\<rparr>) t
         in Inr t)
      else
        (let t = responder (msg_hola_usuario nombre) t;
             t = enviar_respuesta sender t;
             t = responder msg_pide_fecha t;
             t = usr (\<lambda>u. u\<lparr>u_step := ''askedBirthdate''\<rparr>) t
         in Inr t))"

definition opciones_rol :: "string \<Rightarrow> string list" where
  "opciones_rol developer =
     (if developer = ''ON'' then [''Usuario'', ''Asociado'', ''Master'', ''Desarrollador'']
      else [''Usuario'', ''Asociado'', ''Master''])"

definition rule_master :: "string \<Rightarrow> string \<Rightarrow> string \<Rightarrow> turno \<Rightarrow> paso_res" where
  \<comment> \<open>lines 766-779\<close>
  "rule_master sender nombre developer t =
     (let t = usr (\<lambda>u. u\<lparr>u_poliza := Some ''Salud'', u_cotiza := Some []\<rparr>) t;
          t = responder (msg_hola_admin nombre) t;
          t = enviar_respuesta sender t;
          t = responder msg_pregunta_rol t;
          t = t\<lparr>t_opciones := opciones_rol developer\<rparr>;
          t = usr (\<lambda>u. u\<lparr>u_historial :=
                Some (agregar_opciones (historial_de u) (opciones_rol developer) (Paso ''askedMaster''))\<rparr>) t;
          t = enviar_con sender [] None None (t_opciones t) t;
          t = responder [] t;
          t = usr (\<lambda>u. u\<lparr>u_step := ''askedMaster''\<rparr>) t
      in Inr t)"

definition rule_chatgpt :: "turno \<Rightarrow> paso_res" where
  \<comment> \<open>lines 781-783\<close>
  "rule_chatgpt t =
     Inr (usr (\<lambda>u. u\<lparr>u_step := ''waitForQuestion''\<rparr>) (responder msg_adelante t))"

definition rule_askedWelcome :: "string \<Rightarrow> turno \<Rightarrow> paso_res" where
  \<comment> \<open>lines 785-791\<close>
  "rule_askedWelcome mensaje_decoded t =
     (let t = usr (\<lambda>u. u\<lparr>u_nombre := title mensaje_decoded\<rparr>) t;
          nombre = u_nombre (t_usuario t);
          t = responder (msg_gusto nombre) t;
          t = usr (\<lambda>u. u\<lparr>u_step := ''askedBirthdate''\<rparr>) t
      in Inr t)"

definition rule_askedBirthdate :: "string \<Rightarrow> turno \<Rightarrow> paso_res" where
  \<comment> \<open>lines 793-801\<close>
  "rule_askedBirthdate mensaje_decoded t =
     (case validar_fecha (codigos mensaje_decoded) of
        Some fecha \<Rightarrow>
          Inr (usr (\<lambda>u. u\<lparr>u_step := ''askedEmail''\<rparr>)
                 (responder msg_pide_correo (usr (\<lambda>u. u\<lparr>u_fecha := mensaje_decoded\<rparr>) t)))
      | None \<Rightarrow>
          Inr (usr (\<lambda>u. u\<lparr>u_step := ''askedBirthdate''\<rparr>) (responder msg_fecha_incorrecta t)))"

definition rule_askedOnlyName :: "env \<Rightarrow> string \<Rightarrow> string \<Rightarrow> turno \<Rightarrow> paso_res" where
  \<comment> \<open>lines 803-822; the id that \<open>asignar_a_analista\<close> returns is not looked at\<close>
  "rule_askedOnlyName env sender mensaje_decoded t =
     (let t = usr (\<lambda>u. u\<lparr>u_nombre := title mensaje_decoded, u_step := ''end''\<rparr>) t;
          nombre = u_nombre (t_usuario t)
      in leer ''poliza'' (u_poliza (t_usuario t)) t (\<lambda>poliza.
           (let data = [(''telefono'', Str sender), (''nombre'', Str nombre), (''poliza'', Str poliza)];
                asignado = asignar_a_analista env data;
                t = responder (msg_analista nombre poliza) t;
                t = t\<lparr>t_botones := [(''Si'', ''Si''), (''No'', ''No''), (''Cotiza'', ''Volver a cotizar'')]\<rparr>;
                t = usr (\<lambda>u. u\<lparr>u_step := ''additionalHelp''\<rparr>) t
            in Inr t)))"

definition rule_askedName :: "string \<Rightarrow> turno \<Rightarrow> paso_res" where
  \<comment> \<open>lines 824-827\<close>
  "rule_askedName mensaje_decoded t =
     Inr (usr (\<lambda>u. u\<lparr>u_step := ''askedEmail''\<rparr>)
            (responder msg_pide_correo_contacto
               (usr (\<lambda>u. u\<lparr>u_nombre := title mensaje_decoded\<rparr>) t)))"

definition rule_askedEmail :: "string \<Rightarrow> turno \<Rightarrow> paso_res" where
  \<comment> \<open>lines 829-839\<close>
  "rule_askedEmail mensaje_decoded t =
     (if correo_es_valido mensaje_decoded then
        (let t = usr (\<lambda>u. u\<lparr>u_email := Some mensaje_decoded\<rparr>) t;
             t = responder msg_pide_genero t;
             t = t\<lparr>t_botones := [(''M'', ''Masculino''), (''F'', ''Femenino'')]\<rparr>;
             t = usr (\<lambda>u. u\<lparr>u_step := ''askedSex''\<rparr>) t
         in Inr t)
      else Inr (responder msg_correo_invalido t))"

definition rule_askedSex :: "string \<Rightarrow> turno \<Rightarrow> paso_res" where
  \<comment> \<open>lines 841-850\<close>
  "rule_askedSex mensaje_decoded t =
     (let t = usr (\<lambda>u. u\<lparr>u_sexo := Some mensaje_decoded, u_bcuenta := Some 0,
                          u_beneficiario := Some ''no''\<rparr>) t;
          t = responder msg_agregar_familiar t;
          t = t\<lparr>t_botones := [(''Si'', ''Si''), (''No'', ''No'')]\<rparr>;
          t = usr (\<lambda>u. u\<lparr>u_step := ''askBenefit''\<rparr>) t
      in Inr t)"

definition rule_askBenefit :: "string \<Rightarrow> turno \<Rightarrow> paso_res" where
  \<comment> \<open>lines 852-862\<close>
  "rule_askBenefit mensaje_decoded t =
     (if mensaje_decoded = ''si'' then
        (let t = usr (\<lambda>u. u\<lparr>u_beneficiario := Some ''si''\<rparr>) t;
             t = responder msg_pide_parentesco t;
             t = usr (\<lambda>u. u\<lparr>u_step := ''askedParent''\<rparr>) t
         in Inr t)
      else
        (let t = responder msg_sin_mas_familiares t;
             t = t\<lparr>t_botones := [(''Continuar'', ''Continuar'')]\<rparr>;
             t = usr (\<lambda>u. u\<lparr>u_step := ''askedFamily''\<rparr>) t
         in Inr t))"

definition rule_askedParent :: "string \<Rightarrow> turno \<Rightarrow> paso_res" where
  \<comment> \<open>lines 864-871\<close>
  "rule_askedParent mensaje_decoded t =
     (if parentesco_valido mensaje_decoded then
        (let t = usr (\<lambda>u. u\<lparr>u_parentesco := Some (lower (strip mensaje_decoded))\<rparr>) t;
             parentesco = lower (strip mensaje_decoded);
             t = responder (msg_pide_fecha_familiar parentesco) t;
             t = usr (\<lambda>u. u\<lparr>u_step := ''askedBirthdateParent''\<rparr>) t
         in Inr t)
      else Inr (responder msg_parentesco_incorrecto t))"

definition rule_askedBirthdateParent :: "env \<Rightarrow> string \<Rightarrow> string \<Rightarrow> turno \<Rightarrow> paso_res" where
  \<comment> \<open>lines 873-892; the id that \<open>agregar_beneficiario\<close> returns is not looked at\<close>
  "rule_askedBirthdateParent env sender mensaje_decoded t =
     (case validar_fecha (codigos mensaje_decoded) of
        Some fecha \<Rightarrow>
          (let t = usr (\<lambda>u. u\<lparr>u_bfecha := Some mensaje_decoded\<rparr>) t
           in leer ''bcuenta'' (u_bcuenta (t_usuario t)) t (\<lambda>bcuenta.
                (let t = usr (\<lambda>u. u\<lparr>u_bcuenta := Some (bcuenta + 1)\<rparr>) t
                 in leer ''parentesco'' (u_parentesco (t_usuario t)) t (\<lambda>parentesco.
                      (let data = [(''btoken'', Str sender),
                                   (''bfecha'', valor_de (fecha_sql (codigos mensaje_decoded))),
                                   (''bparentesco'', Str parentesco),
                                   (''correlativo'', Num (bcuenta + 1))];
                           agregado = agregar_beneficiario env data;
                           t = responder msg_agregar_otro_familiar t;
                           t = t\<lparr>t_botones := [(''Si'', ''Si''), (''No'', ''No'')]\<rparr>;
                           t = usr (\<lambda>u. u\<lparr>u_step := ''askBenefit''\<rparr>) t
                       in Inr t)))))
      | None \<Rightarrow> Inr (responder msg_fecha_incorrecta t))"

definition url_cotizacion :: "string \<Rightarrow> string" where
  "url_cotizacion id_cotizacion = ''https://YOUR_PDF_SERVICE.co/pdfgen/'' @ id_cotizacion @ ''.pdf''"

definition archivo_cotizacion :: "string \<Rightarrow> string" where
  "archivo_cotizacion id_cotizacion = ''Cotizacion_'' @ id_cotizacion @ ''.pdf''"

definition askedFamily_fin :: "string \<Rightarrow> turno \<Rightarrow> paso_res" where
  \<comment> \<open>lines 972-986\<close>
  "askedFamily_fin sender t =
     leer ''poliza'' (u_poliza (t_usuario t)) t (\<lambda>poliza.
       (let t = t\<lparr>t_url_pdf := None\<rparr>;
            t = responder msg_cotizacion_procesada t;
            t = enviar_respuesta sender t;
            t = responder [] t;
            t = usr (\<lambda>u. u\<lparr>u_modo := ''chatgpt'', u_step := ''waitForQuestion''\<rparr>) t;
            t = guardar_usuario sender t
        in Inr t))"

definition askedFamily_segunda :: "env \<Rightarrow> string \<Rightarrow> string \<Rightarrow> string \<Rightarrow> turno \<Rightarrow> paso_res" where
  \<comment> \<open>lines 936-970: the second quotation, for a smaller budget\<close>
  "askedFamily_segunda env sender email sexo t =
     (let t = responder msg_otras_cotizaciones t;
          t = t\<lparr>t_url_pdf := None\<rparr>;
          t = enviar_respuesta sender t;
          t = usr (\<lambda>u. u\<lparr>u_monto := ''50000'', u_monto2 := Some ''30000'',
                          u_monto3 := Some ''20000'', u_plan := Some ''Amplio''\<rparr>) t;
          u = t_usuario t;
          data = [(''telefono'', Str sender), (''fecha'', valor_de (fecha_sql (codigos (u_fecha u)))),
                  (''nombre'', Str (u_nombre u)), (''email'', Str email), (''sexo'', Str sexo),
                  (''plan'', valor_de (u_plan u)), (''monto'', Str (u_monto u)),
                  (''monto2'', valor_de (u_monto2 u)), (''monto3'', valor_de (u_monto3 u)),
                  (''bdelete'', Str ''SI'')];
          id_cotizacion = cotizar env data
      in case generar_pdf env id_cotizacion of
           Inl e \<Rightarrow> Inl (Raise e, t)
         | Inr contenido \<Rightarrow>
             (if id_cotizacion \<noteq> [] then
                (let t = t\<lparr>t_url_pdf := Some (url_cotizacion id_cotizacion),
                            t_pdf_file := Some (archivo_cotizacion id_cotizacion)\<rparr>;
                     t = responder (msg_cotizacion_lista id_cotizacion) t;
                     t = enviar_respuesta sender t
                 in askedFamily_fin sender t)
              else
                (let t = responder msg_error_cotizacion t;
                     t = t\<lparr>t_url_pdf := None\<rparr>;
                     t = enviar_respuesta sender t
                 in askedFamily_fin sender t)))"

definition rule_askedFamily :: "env \<Rightarrow> string \<Rightarrow> turno \<Rightarrow> paso_res" where
  \<comment> \<open>lines 894-935: the first quotation; \<open>generar_pdf\<close> is called whatever the id, outside
      any \<open>try\<close>, so what it raises leaves the handler\<close>
  "rule_askedFamily env sender t =
     (let t = usr (\<lambda>u. u\<lparr>u_bcuenta := Some 0\<rparr>) t;
          t = responder msg_enviando_cotizacion t;
          t = enviar_respuesta sender t;
          t = usr (\<lambda>u. u\<lparr>u_plan := Some ''Amplio'', u_monto := ''100000'',
                          u_monto2 := Some ''200000'', u_modo := ''chatgpt'',
                          u_step := ''waitForQuestion''\<rparr>) t;
          t = guardar_usuario sender t
      in leer ''email'' (u_email (t_usuario t)) t (\<lambda>email.
         leer ''sexo'' (u_sexo (t_usuario t)) t (\<lambda>sexo.
           (let u = t_usuario t;
                data = [(''telefono'', Str sender), (''fecha'', valor_de (fecha_sql (codigos (u_fecha u)))),
                        (''nombre'', Str (u_nombre u)), (''email'', Str email), (''sexo'', Str sexo),
                        (''plan'', valor_de (u_plan u)), (''monto'', Str (u_monto u)),
                        (''monto2'', valor_de (u_monto2 u))];
                id_cotizacion = cotizar env data
            in case generar_pdf env id_cotizacion of
                 Inl e \<Rightarrow> Inl (Raise e, t)
               | Inr contenido \<Rightarrow>
                   (if id_cotizacion \<noteq> [] then
                      (let t = usr (\<lambda>u. u\<lparr>u_cotiza := Some id_cotizacion\<rparr>) t;
                           t = t\<lparr>t_url_pdf := Some (url_cotizacion id_cotizacion),
                                  t_pdf_file := Some (archivo_cotizacion id_cotizacion)\<rparr>;
                           t = responder (msg_cotizacion_lista id_cotizacion) t;
                           t = enviar_respuesta sender t
                       in askedFamily_segunda env sender email sexo t)
                    else
                      (let t = responder msg_error_cotizacion t;
                           t = t\<lparr>t_url_pdf := None\<rparr>;
                           t = enviar_respuesta sender t
                       in askedFamily_segunda env sender email sexo t))))))"

definition rule_end :: "string \<Rightarrow> turno \<Rightarrow> paso_res" where
  \<comment> \<open>lines 988-1004\<close>
  "rule_end rol t =
     (let t = responder msg_otra_pregunta_para_mi t
      in leer ''poliza'' (u_poliza (t_usuario t)) t (\<lambda>poliza.
           (let t = (if poliza = ''Salud'' then responder msg_cotizacion_procesada t else t);
                t = t\<lparr>t_botones := botones_ayuda rol\<rparr>;
                t = usr (\<lambda>u. u\<lparr>u_step := ''additionalHelp''\<rparr>) t
            in Inr t)))"

definition rule_additionalHelp :: "env \<Rightarrow> string \<Rightarrow> string \<Rightarrow> turno \<Rightarrow> paso_res" where
  \<comment> \<open>lines 1006-1055: an \<open>if\<close> for \<open>no\<close>, then a separate \<open>if\<close>/\<open>elif\<close>/\<open>else\<close>\<close>
  "rule_additionalHelp env rol mensaje_decoded t =
     (let t = (if mensaje_decoded = ''no'' then
                 (let t = (if rol = ''admin'' \<or> rol = ''developer''
                           then responder msg_gracias_contactarme t
                           else responder msg_gracias_contactarnos t)
                  in usr (\<lambda>u. u\<lparr>u_step := ''finalizado'', u_modo := ''normal''\<rparr>) t)
               else t)
      in if mensaje_decoded = ''volver a cotizar'' \<or> mensaje_decoded = ''volver''
            \<or> startswith mensaje_decoded ''hola'' then
           (let t = (if rol = ''admin'' \<or> rol = ''developer''
                     then responder msg_volver_consultar t
                     else responder msg_volver_cotizar t)
            in Inr (usr (\<lambda>u. u\<lparr>u_step := ''start'', u_modo := ''normal''\<rparr>) t))
         else if mensaje_decoded = ''si'' then
           (let t = (if u_modo (t_usuario t) = ''gandalf'' then responder msg_gandalf t
                     else usr (\<lambda>u. u\<lparr>u_modo := ''chatgpt''\<rparr>) (responder msg_escribe_pregunta t))
            in Inr (usr (\<lambda>u. u\<lparr>u_step := ''waitForQuestion''\<rparr>) t))
         else if u_modo (t_usuario t) = ''chatgpt'' then
           (let respuesta_chatgpt = pregunta_a_chatgpt env mensaje_decoded ''gpt-4o'' in
            if respuesta_chatgpt = ''TOKEN_START'' then
              Inr (usr (\<lambda>u. u\<lparr>u_step := ''start'', u_modo := ''normal''\<rparr>)
                     (responder msg_cotizar_de_nuevo t))
            else if respuesta_chatgpt = ''TOKEN_END'' then
              Inr (usr (\<lambda>u. u\<lparr>u_step := ''finalizado'', u_modo := ''normal''\<rparr>)
                     (responder msg_gracias_contactarnos t))
            else
              (let t = responder (msg_con_otra_pregunta respuesta_chatgpt) t;
                   t = t\<lparr>t_botones := botones_ayuda rol\<rparr>;
                   t = usr (\<lambda>u. u\<lparr>u_step := ''confirmContinue''\<rparr>) t
               in Inr t))
         else Inr t)"

definition rule_endCotiza :: "turno \<Rightarrow> paso_res" where
  \<comment> \<open>lines 1057-1071: \<open>respuesta_chatgpt\<close> is read before any assignment of this call\<close>
  "rule_endCotiza t = Inl (Raise (UnboundLocalError ''respuesta_chatgpt''), t)"

definition rule_waitForQuestion :: "env \<Rightarrow> string \<Rightarrow> string \<Rightarrow> string \<Rightarrow> turno \<Rightarrow> paso_res" where
  \<comment> \<open>lines 1073-1099\<close>
  "rule_waitForQuestion env sender rol mensaje_decoded t =
     (if mensaje_decoded \<noteq> ''continuar'' then
        (let model = (case u_model (t_usuario t) of
                        Some m \<Rightarrow> if modelo_es_valido m then m else ''gpt-4o''
                      | None \<Rightarrow> ''gpt-4o'');
             respuesta_chatgpt =
               (if u_modo (t_usuario t) = ''gandalf'' \<or> rol = ''developer''
                then pregunta_a_gandalf env mensaje_decoded model
                else pregunta_a_chatgpt env mensaje_decoded model)
         in case dividir_mensaje respuesta_chatgpt 1000 of
              None \<Rightarrow> Inl (NoRetorna, t)
            | Some mensajes \<Rightarrow>
                (let t = foldl (\<lambda>t trozo. enviar (enviar_mensaje_telegram sender trozo [] None None []) t)
                           t mensajes;
                     t = responder msg_otra_pregunta t;
                     t = t\<lparr>t_botones := botones_ayuda rol\<rparr>;
                     t = usr (\<lambda>u. u\<lparr>u_step := ''additionalHelp''\<rparr>) t
                 in Inr t))
      else Inr t)"

definition rule_confirmContinue :: "string \<Rightarrow> turno \<Rightarrow> paso_res" where
  \<comment> \<open>lines 1101-1113: an \<open>if\<close> for \<open>si\<close>, then a separate \<open>if\<close>/\<open>else\<close> for \<open>cotiza\<close>\<close>
  "rule_confirmContinue mensaje_decoded t =
     (let t = (if mensaje_decoded = ''si'' then
                 usr (\<lambda>u. u\<lparr>u_step := ''additionalHelp'', u_modo := ''chatgpt''\<rparr>)
                   (responder msg_proxima_pregunta t)
               else t)
      in if mensaje_decoded = ''cotiza'' then
           Inr (usr (\<lambda>u. u\<lparr>u_step := ''start'', u_modo := ''normal''\<rparr>)
                  (responder msg_podemos_cotizar t))
         else
           Inr (usr (\<lambda>u. u\<lparr>u_step := ''finalizado'', u_modo := ''normal''\<rparr>)
                  (responder msg_gracias_contactarnos t)))"

definition suboptions :: "string \<Rightarrow> string list" where
  \<comment> \<open>lines 1121-1125\<close>
  "suboptions categoria =
     (if categoria = ''administracion''
      then [''Aranceles'', ''Relacion Comisiones'', ''Pago Comisiones'', ''Contacto'']
      else if categoria = ''riesgos''
      then [''Condicionados'', ''M'' @ [CHR 0xE9] @ ''todos Pago'', ''Requisitos Cotizar'', ''Requisitos Emitir'',
            ''Requ. cotizar colectivo'', ''Requ. cotizar flota'', ''Solicitudes'',
            ''Edad de admisibilidad'', ''Plazos de espera'']
      else [''Red clinicas'', ''Proc. Reclamos'', ''Tramitar Recl.'', ''Contactos Emerg.''])"

definition rule_askedAdmin :: "string \<Rightarrow> string \<Rightarrow> turno \<Rightarrow> paso_res" where
  \<comment> \<open>lines 1115-1137; the two comparisons \<open>usuario['modo'] == ...\<close> change nothing\<close>
  "rule_askedAdmin sender mensaje_decoded t =
     (let t = responder msg_pregunta_subarea t;
          t = usr (\<lambda>u. u\<lparr>u_step := ''start''\<rparr>) t;
          t = (if mensaje_decoded \<in> set [''administracion'', ''riesgos'', ''soporte al cliente''] then
                 (let t = usr (\<lambda>u. u\<lparr>u_categoria := Some mensaje_decoded\<rparr>) t;
                      t = t\<lparr>t_opciones := suboptions mensaje_decoded\<rparr>;
                      t = usr (\<lambda>u. u\<lparr>u_historial :=
                            Some (agregar_opciones (historial_de u) (suboptions mensaje_decoded)
                                    (Paso ''sub_category_selection'')),
                            u_opciones := Some (suboptions mensaje_decoded)\<rparr>) t;
                      t = responder msg_selecciona_subcategoria t
                  in usr (\<lambda>u. u\<lparr>u_step := ''sub_category_selection''\<rparr>) t)
               else t);
          t = (if mensaje_decoded = ''hablar con deyna'' then
                 (let t = responder msg_adelante t;
                      t = t\<lparr>t_opciones := []\<rparr>;
                      t = enviar_respuesta sender t;
                      t = usr (\<lambda>u. u\<lparr>u_step := ''waitForQuestion''\<rparr>) t
                  in responder [] t)
               else t)
      in Inr t)"

definition rule_askedMaster :: "string \<Rightarrow> string \<Rightarrow> string \<Rightarrow> string \<Rightarrow> turno \<Rightarrow> paso_res" where
  \<comment> \<open>lines 1138-1163: four separate \<open>if\<close>s on the message. The statements
      \<open>usuario['rol'] == ...\<close> and \<open>usuario['modo'] == ...\<close> are comparisons: they read the
      key, which is \<open>KeyError\<close> when \<open>rol\<close> is absent, and assign nothing.\<close>
  "rule_askedMaster sender nombre developer mensaje_decoded t =
     (if mensaje_decoded = ''usuario'' then
        (let t = responder msg_bienvenida t;
             t = enviar_respuesta sender t;
             t = responder msg_pide_nombre t
         in leer ''rol'' (u_rol (t_usuario t)) t (\<lambda>rol_actual.
              Inr (usr (\<lambda>u. u\<lparr>u_step := ''askedWelcome''\<rparr>) t)))
      else if mensaje_decoded = ''asociado'' then
        (let t = responder msg_pregunta_area t;
             t = t\<lparr>t_opciones := opciones_area\<rparr>;
             t = usr (\<lambda>u. u\<lparr>u_historial :=
                   Some (agregar_opciones (historial_de u) opciones_area (Paso ''askedAdmin''))\<rparr>) t;
             t = enviar_con sender [] None None (t_opciones t) t;
             t = responder [] t
         in leer ''rol'' (u_rol (t_usuario t)) t (\<lambda>rol_actual.
              Inr (usr (\<lambda>u. u\<lparr>u_step := ''askedAdmin''\<rparr>) t)))
      else if mensaje_decoded = ''desarrollador'' \<and> developer = ''ON'' then
        (let t = responder (msg_hola_developer nombre) t
         in leer ''rol'' (u_rol (t_usuario t)) t (\<lambda>rol_actual.
              Inr (usr (\<lambda>u. u\<lparr>u_step := ''waitForQuestion'', u_modo := ''gandalf''\<rparr>) t)))
      else if mensaje_decoded = ''master'' then
        Inr (usr (\<lambda>u. u\<lparr>u_step := ''askedTrainer''\<rparr>) (responder msg_hola_maestro t))
      else Inr t)"

definition rule_askedTrainer :: "env \<Rightarrow> string \<Rightarrow> string \<Rightarrow> turno \<Rightarrow> paso_res" where
  \<comment> \<open>lines 1165-1179; the reply to the refresh call is not looked at\<close>
  "rule_askedTrainer env sender mensaje_decoded t =
     (let t = responder msg_memorizando t;
          t = enviar_con sender [] None None [] t
      in case instrucciones_deyna env of
           Some instrucciones \<Rightarrow>
             (let t = t\<lparr>t_instrucciones :=
                          t_instrucciones t @ [instrucciones @ [CHR 0x0A] @ mensaje_decoded]\<rparr>;
                  response = pregunta_a_chatgpt env ''TUBOT:reborn'' ''gpt-4o'';
                  t = responder msg_conocimiento_actualizado t
              in Inr (usr (\<lambda>u. u\<lparr>u_step := ''master''\<rparr>) t))
         | None \<Rightarrow>
             Inr (usr (\<lambda>u. u\<lparr>u_step := ''master''\<rparr>) (responder msg_sin_instrucciones t)))"

definition rule_gandalf :: "string \<Rightarrow> turno \<Rightarrow> paso_res" where
  \<comment> \<open>lines 1181-1187\<close>
  "rule_gandalf sender t =
     (let t = responder msg_adelante t;
          t = t\<lparr>t_opciones := []\<rparr>;
          t = enviar_respuesta sender t;
          t = usr (\<lambda>u. u\<lparr>u_step := ''waitForQuestion''\<rparr>) t
      in Inr (responder [] t))"

definition companies :: "string \<Rightarrow> string list" where
  \<comment> \<open>lines 1194-1200, \<open>companies.get(mensaje_decoded, [])\<close>: the dictionary spells its
      first key \<open>conicionados\<close>, so \<open>condicionados\<close> finds nothing\<close>
  "companies subcategoria =
     (if subcategoria \<in> set [''conicionados'', ''red clinicas'', ''m'' @ [CHR 0xE9] @ ''todos pago'', ''solicitudes'']
      then [''Compania1'', ''Compania2'', ''Compania3'', ''Compania4'', ''Compania5'',
            ''Compania6'', ''Compania7'', ''Compania8'', ''Compania9'', ''Compania10'']
      else [])"

definition rule_sub_category_selection :: "string \<Rightarrow> turno \<Rightarrow> paso_res" where
  \<comment> \<open>lines 1188-1225. \<open>elegir_documento\<close> is defined nowhere in the program: the call is
      \<open>NameError\<close>.\<close>
  "rule_sub_category_selection mensaje_decoded t =
     leer ''categoria'' (u_categoria (t_usuario t)) t (\<lambda>categoria.
       if categoria \<in> set [''administracion'', ''riesgos'', ''soporte al cliente''] then
         (let t = usr (\<lambda>u. u\<lparr>u_subcategoria := Some mensaje_decoded\<rparr>) t in
          if mensaje_decoded \<in> set [''condicionados'', ''m'' @ [CHR 0xE9] @ ''todos pago'', ''solicitudes'', ''red clinicas''] then
            (let t = usr (\<lambda>u. u\<lparr>u_step := ''company_selection'',
                                 u_companies := Some (companies mensaje_decoded)\<rparr>) t;
                 t = t\<lparr>t_opciones := companies mensaje_decoded\<rparr>;
                 t = usr (\<lambda>u. u\<lparr>u_historial :=
                       Some (agregar_opciones (historial_de u) (companies mensaje_decoded)
                               (Paso ''company_selection''))\<rparr>) t
             in Inr (responder msg_selecciona_aseguradora t))
          else Inl (Raise (NameError ''elegir_documento''), t))
       else Inr (responder msg_subcategoria_no_reconocida t))"

definition rule_company_selection :: "turno \<Rightarrow> paso_res" where
  \<comment> \<open>lines 1226-1245: the name \<open>elegir_documento\<close> is looked up before its arguments\<close>
  "rule_company_selection t = Inl (Raise (NameError ''elegir_documento''), t)"

definition abrir_carpeta :: "env \<Rightarrow> string \<Rightarrow> turno \<Rightarrow> paso_res" where
  \<comment> \<open>lines 1260-1274 and again 1276-1290: list the folder and register its entries\<close>
  "abrir_carpeta env mensaje_decoded t =
     leer ''base_path'' (u_base_path (t_usuario t)) t (\<lambda>base_path.
       (let folder_path = rstrip_char CHR ''/'' base_path @ ''/'' @ lstrip_char CHR ''/'' mensaje_decoded
        in case obtener_documentos env
                  (replace ''https://YOUR_DOCUMENT_SERVICE.co/doc_asist/'' [] folder_path) of
             Some (doc # docs) \<Rightarrow>
               (let documentos = doc # docs;
                    folder_path = (if \<not> endswith folder_path ''/'' then folder_path @ ''/'' else folder_path);
                    documentos_urls =
                      foldl (\<lambda>d doc. AList.update doc (folder_path @ doc) d) [] documentos;
                    t = usr (\<lambda>u. u\<lparr>u_documents := Some documentos_urls\<rparr>) t;
                    t = t\<lparr>t_opciones := map fst documentos_urls\<rparr>;
                    t = usr (\<lambda>u. u\<lparr>u_historial :=
                          Some (agregar_opciones (historial_de u) (map fst documentos_urls)
                                  (Paso ''document_choice''))\<rparr>) t;
                    t = responder msg_selecciona_archivo t
                in Inr (usr (\<lambda>u. u\<lparr>u_step := ''document_choice''\<rparr>) t))
           | _ \<Rightarrow>
               Inr (usr (\<lambda>u. u\<lparr>u_step := ''start''\<rparr>) (responder msg_documento_no_valido t))))"

definition rule_document_choice :: "env \<Rightarrow> string \<Rightarrow> turno \<Rightarrow> paso_res" where
  \<comment> \<open>lines 1246-1290\<close>
  "rule_document_choice env mensaje_decoded t =
     leer ''documents'' (u_documents (t_usuario t)) t (\<lambda>documents.
       (case map_of documents mensaje_decoded of
          Some selected_doc \<Rightarrow>
            if selected_doc \<noteq> [] then
              (if endswith selected_doc ''pdf'' then
                 (let t = t\<lparr>t_url_pdf := Some selected_doc, t_pdf_file := Some mensaje_decoded\<rparr>;
                      t = responder msg_aqui_documento t;
                      t = t\<lparr>t_botones := [], t_opciones := []\<rparr>
                  in Inr (usr (\<lambda>u. u\<lparr>u_step := ''start''\<rparr>) t))
               else abrir_carpeta env mensaje_decoded t)
            else abrir_carpeta env mensaje_decoded t
        | None \<Rightarrow> abrir_carpeta env mensaje_decoded t))"

definition rule_fallback :: "turno \<Rightarrow> paso_res" where
  \<comment> \<open>lines 1291-1294\<close>
  "rule_fallback t =
     Inr (usr (\<lambda>u. u\<lparr>u_step := ''start'', u_modo := ''normal''\<rparr>) (responder msg_no_entiendo t))"

section \<open>Dispatch and the handler\<close>

definition condicion_start :: "string \<Rightarrow> string \<Rightarrow> string \<Rightarrow> string \<Rightarrow> bool" where
  \<comment> \<open>line 736\<close>
  "condicion_start master step mensaje_decoded modo =
     (master \<noteq> ''ON''
      \<and> (step = ''start'' \<or> mensaje_decoded = ''hola'' \<or> mensaje_decoded = ''/start'')
      \<and> \<not> (mensaje_decoded = ''chatgpt'' \<or> mensaje_decoded = ''dr seguro'')
      \<and> modo = ''normal'')"

definition despachar ::
  "env \<Rightarrow> string \<Rightarrow> string \<Rightarrow> string \<Rightarrow> string \<Rightarrow> string \<Rightarrow> string \<Rightarrow> string \<Rightarrow> turno
     \<Rightarrow> paso_res" where
  \<comment> \<open>The chain of lines 736-1294, on the locals \<open>step\<close>, \<open>nombre\<close>, \<open>rol\<close>, \<open>master\<close>,
      \<open>developer\<close> and \<open>mensaje_decoded\<close> as lines 674-717 leave them.\<close>
  "despachar env sender step nombre rol master developer mensaje_decoded t =
     (if condicion_start master step mensaje_decoded (u_modo (t_usuario t))
      then rule_start sender nombre rol t
      else if step = ''master'' then rule_master sender nombre developer t
      else if mensaje_decoded = ''chatgpt'' \<or> mensaje_decoded = ''dr seguro'' then rule_chatgpt t
      else if step = ''askedWelcome'' \<and> u_modo (t_usuario t) = ''normal''
      then rule_askedWelcome mensaje_decoded t
      else if step = ''askedBirthdate'' then rule_askedBirthdate mensaje_decoded t
      else if step = ''askedOnlyName'' then rule_askedOnlyName env sender mensaje_decoded t
      else if step = ''askedName'' then rule_askedName mensaje_decoded t
      else if step = ''askedEmail'' then rule_askedEmail mensaje_decoded t
      else if step = ''askedSex'' then rule_askedSex mensaje_decoded t
      else if step = ''askBenefit'' then rule_askBenefit mensaje_decoded t
      else if step = ''askedParent'' then rule_askedParent mensaje_decoded t
      else if step = ''askedBirthdateParent''
      then rule_askedBirthdateParent env sender mensaje_decoded t
      else if step = ''askedFamily'' then rule_askedFamily env sender t
      else if step = ''end'' then rule_end rol t
      else if step = ''additionalHelp'' then rule_additionalHelp env rol mensaje_decoded t
      else if step = ''endCotiza'' then rule_endCotiza t
      else if step = ''waitForQuestion'' then rule_waitForQuestion env sender rol mensaje_decoded t
      else if step = ''confirmContinue'' then rule_confirmContinue mensaje_decoded t
      else if step = ''askedAdmin'' then rule_askedAdmin sender mensaje_decoded t
      else if step = ''askedMaster'' then rule_askedMaster sender nombre developer mensaje_decoded t
      else if step = ''askedTrainer'' then rule_askedTrainer env sender mensaje_decoded t
      else if step = ''gandalf'' then rule_gandalf sender t
      else if step = ''sub_category_selection'' then rule_sub_category_selection mensaje_decoded t
      else if step = ''company_selection'' then rule_company_selection t
      else if step = ''document_choice'' then rule_document_choice env mensaje_decoded t
      else rule_fallback t)"

definition obtener_boton :: "evento \<Rightarrow> string \<Rightarrow> string" where
  \<comment> \<open>lines 258-277\<close>
  "obtener_boton ev mensaje = (case e_callback_data ev of Some d \<Rightarrow> d | None \<Rightarrow> mensaje)"

definition numero_bot :: string where
  "numero_bot = ''YOUR_BOT_PHONE_NUMBER''"

definition sin_efectos :: "resultado \<Rightarrow> salida" where
  "sin_efectos r = \<lparr>s_resultado = r, s_enviados = [], s_guardados = [], s_instrucciones = []\<rparr>"

definition salida_de :: "resultado \<Rightarrow> turno \<Rightarrow> salida" where
  "salida_de r t =
     \<lparr>s_resultado = r, s_enviados = t_enviados t, s_guardados = t_guardados t,
      s_instrucciones = t_instrucciones t\<rparr>"

definition terminar :: "string \<Rightarrow> paso_res \<Rightarrow> salida" where
  \<comment> \<open>lines 1295-1304 after a rule that returned; a failure leaves the handler at once\<close>
  "terminar sender r =
     (case r of
        Inl (Raise e, t) \<Rightarrow> salida_de (Excepcion e) t
      | Inl (NoRetorna, t) \<Rightarrow> salida_de SinRetorno t
      | Inr t \<Rightarrow>
          (let t = (if t_text t \<noteq> None \<and> t_text t \<noteq> Some [] then enviar_respuesta sender t else t);
               t = guardar_usuario sender t
           in salida_de (Respuesta 200 (''Operaci'' @ [CHR 0xF3] @ ''n realizada correctamente'')) t))"

definition rol_de :: "usuario \<Rightarrow> string" where
  \<comment> \<open>lines 676-678\<close>
  "rol_de usuario = (case u_rol usuario of Some r \<Rightarrow> r | None \<Rightarrow> ''user'')"

definition master_de :: "usuario \<Rightarrow> string" where
  \<comment> \<open>lines 679-681\<close>
  "master_de usuario = (case u_master usuario of Some m \<Rightarrow> m | None \<Rightarrow> ''OFF'')"

definition developer_de :: "usuario \<Rightarrow> string" where
  \<comment> \<open>lines 682-684\<close>
  "developer_de usuario = (case u_developer usuario of Some d \<Rightarrow> d | None \<Rightarrow> ''OFF'')"

definition turno_inicial :: "usuario \<Rightarrow> turno" where
  \<comment> \<open>The locals as lines 648-651 and 687-689 set them, nothing done yet.\<close>
  "turno_inicial usuario =
     \<lparr>t_usuario = usuario, t_text = None, t_botones = [], t_opciones = [],
      t_url_pdf = None, t_pdf_file = None, t_enviados = [],
      t_guardados = [], t_instrucciones = []\<rparr>"

definition lambda_handler :: "env \<Rightarrow> evento \<Rightarrow> salida" where
  \<comment> \<open>The branch \<open>'body' in event\<close> of \<open>lambda_handler\<close>, lines 628-1304: one turn.\<close>
  "lambda_handler env ev =
     (let chat_id = e_chat_id ev;
          mensaje = e_text ev;
          profile_name = e_first_name ev @ '' '' @ e_last_name ev
      in if chat_id = [] \<or> mensaje = [] then sin_efectos (Respuesta 200 (''Mensaje no v'' @ [CHR 0xE1] @ ''lido''))
         else
           (let sender = chat_id;
                mensaje = obtener_boton ev mensaje
            in if sender = [] then sin_efectos (Respuesta 200 ''Sender not found'')
               else
                 (let t = (case recuperar_usuario env sender of
                             Some usuario \<Rightarrow> turno_inicial usuario
                           | None \<Rightarrow>
                               guardar_usuario sender
                                 (turno_inicial (if profile_name = [] then usuario_nuevo []
                                                 else usuario_nuevo profile_name)));
                      usuario = t_usuario t;
                      step = u_step usuario;
                      nombre = u_nombre usuario;
                      rol = rol_de usuario;
                      master = master_de usuario;
                      developer = developer_de usuario;
                      nombre = (if profile_name \<noteq> [] \<and> nombre = [] then profile_name else nombre);
                      mensaje_decoded = lower mensaje
                  in if sender = numero_bot then salida_de (Excepcion (NameError ''jsonify'')) t
                     else
                       (let step = resolver (u_historial usuario) mensaje_decoded step;
                            step = (if master = ''ON'' \<and> step = ''start'' then ''master'' else step);
                            t = usr (\<lambda>u. u\<lparr>u_step := step\<rparr>) t
                        in terminar sender
                             (despachar env sender step nombre rol master developer
                                mensaje_decoded t)))))"

definition pasos_con_regla :: "string list" where
  \<comment> \<open>The steps that select a branch of the chain by themselves.\<close>
  "pasos_con_regla =
     [''master'', ''askedBirthdate'', ''askedOnlyName'', ''askedName'', ''askedEmail'', ''askedSex'',
      ''askBenefit'', ''askedParent'', ''askedBirthdateParent'', ''askedFamily'', ''end'',
      ''additionalHelp'', ''endCotiza'', ''waitForQuestion'', ''confirmContinue'', ''askedAdmin'',
      ''askedMaster'', ''askedTrainer'', ''gandalf'', ''sub_category_selection'',
      ''company_selection'', ''document_choice'']"

definition palabra_clave :: "string \<Rightarrow> bool" where
  \<comment> \<open>line 781\<close>
  "palabra_clave mensaje_decoded = (mensaje_decoded = ''chatgpt'' \<or> mensaje_decoded = ''dr seguro'')"

definition sin_regla :: "string \<Rightarrow> string \<Rightarrow> string \<Rightarrow> string \<Rightarrow> bool" where
  \<comment> \<open>No condition of the chain holds: the final \<open>else\<close> is what is left.\<close>
  "sin_regla master step mensaje_decoded modo =
     (\<not> condicion_start master step mensaje_decoded modo \<and> \<not> palabra_clave mensaje_decoded
      \<and> \<not> (step = ''askedWelcome'' \<and> modo = ''normal'') \<and> step \<notin> set pasos_con_regla)"

definition respuesta_ok :: resultado where
  "respuesta_ok = Respuesta 200 (''Operaci'' @ [CHR 0xF3] @ ''n realizada correctamente'')"

definition perfil_final :: "salida \<Rightarrow> usuario option" where
  \<comment> \<open>The profile in the store when the turn is over: the last one written, if any.\<close>
  "perfil_final s = (if s_guardados s = [] then None else Some (snd (last (s_guardados s))))"

section \<open>Environments and profiles of the examples\<close>

definition env_base :: env where
  \<comment> \<open>An empty store; every collaborator answers.\<close>
  "env_base =
     \<lparr>recuperar_usuario = (\<lambda>user_id. None), instrucciones_deyna = None,
      cotizar = (\<lambda>datos. ''123''), agregar_beneficiario = (\<lambda>datos. ''1''),
      asignar_a_analista = (\<lambda>datos. ''1''), generar_pdf = (\<lambda>id_cotizacion. Inr ''%PDF''),
      pregunta_a_chatgpt = (\<lambda>mensaje model. ''Claro.''),
      pregunta_a_gandalf = (\<lambda>mensaje model. ''Claro.''),
      obtener_documentos = (\<lambda>folder_path. None)\<rparr>"

definition con_usuario :: "string \<Rightarrow> usuario \<Rightarrow> env \<Rightarrow> env" where
  \<comment> \<open>The environment with one more profile in the store.\<close>
  "con_usuario user_id u env =
     env\<lparr>recuperar_usuario := (\<lambda>k. if k = user_id then Some u else recuperar_usuario env k)\<rparr>"

definition escribe :: "string \<Rightarrow> string \<Rightarrow> evento" where
  \<comment> \<open>A text message of Ana Perez in the chat given.\<close>
  "escribe chat mensaje =
     \<lparr>e_chat_id = chat, e_text = mensaje, e_first_name = ''Ana'', e_last_name = ''Perez'',
      e_callback_data = None\<rparr>"

definition escribe_anonimo :: "string \<Rightarrow> string \<Rightarrow> evento" where
  \<comment> \<open>A text message whose sender has no first and no last name.\<close>
  "escribe_anonimo chat mensaje =
     \<lparr>e_chat_id = chat, e_text = mensaje, e_first_name = [], e_last_name = [],
      e_callback_data = None\<rparr>"

definition usuario_en :: "string \<Rightarrow> usuario" where
  \<comment> \<open>A profile of a named user at the step given, in normal mode.\<close>
  "usuario_en step = (usuario_nuevo ''Ana Perez'')\<lparr>u_step := step\<rparr>"

definition master_con_menu :: usuario where
  \<comment> \<open>A master with the role \<open>admin\<close> who has been shown the role menu: the table holds
      \<open>hola\<close> and the three roles.\<close>
  "master_con_menu =
     (usuario_en ''askedMaster'')\<lparr>u_master := Some ''ON'', u_rol := Some ''admin'',
        u_historial := Some [(''hola'', ''start''), (''usuario'', ''askedMaster''),
                             (''asociado'', ''askedMaster''), (''master'', ''askedMaster'')]\<rparr>"

section \<open>Names for the statements about a turn\<close>

definition nombre_de :: "evento \<Rightarrow> usuario \<Rightarrow> string" where
  \<comment> \<open>The local \<open>nombre\<close> after lines 675 and 685-686; \<open>profile_name\<close> always holds the
      space between the two names, so it is never empty.\<close>
  "nombre_de ev u =
     (if u_nombre u = [] then e_first_name ev @ '' '' @ e_last_name ev else u_nombre u)"

definition mensaje_de :: "evento \<Rightarrow> string" where
  \<comment> \<open>The local \<open>mensaje_decoded\<close>: the button data or the text, lower-cased.\<close>
  "mensaje_de ev = lower (obtener_boton ev (e_text ev))"

definition paso_resuelto :: "evento \<Rightarrow> usuario \<Rightarrow> string" where
  \<comment> \<open>The local \<open>step\<close> after lines 710-717: the shortcut table first, then the master
      flag, which only acts on the step \<open>start\<close>.\<close>
  "paso_resuelto ev u =
     (let step = resolver (u_historial u) (mensaje_de ev) (u_step u)
      in if master_de u = ''ON'' \<and> step = ''start'' then ''master'' else step)"

definition bien_formado :: "env \<Rightarrow> evento \<Rightarrow> bool" where
  \<comment> \<open>The event names a chat and carries a text, and the chat is not the bot's own.\<close>
  "bien_formado env ev = (e_chat_id ev \<noteq> [] \<and> e_text ev \<noteq> [] \<and> e_chat_id ev \<noteq> numero_bot)"

section \<open>Names for the statements about the shortcut table\<close>

definition claves :: "(string \<times> string) list \<Rightarrow> string set" where
  \<comment> \<open>The keys of a shortcut table.\<close>
  "claves h = fst ` set h"

definition claves_de :: "usuario \<Rightarrow> string set" where
  \<comment> \<open>The keys of the table a profile holds: the messages that the lookup before
      dispatch resolves to a step. A profile without the key \<open>historial\<close> has none.\<close>
  "claves_de u = (case u_historial u of None \<Rightarrow> {} | Some h \<Rightarrow> claves h)"

definition conserva :: "string set \<Rightarrow> turno \<Rightarrow> bool" where
  \<comment> \<open>The keys \<open>K\<close> are in the table of the profile in hand and in the table of every
      profile written so far in the turn.\<close>
  "conserva K t =
     (K \<subseteq> claves_de (t_usuario t) \<and> (\<forall>cu \<in> set (t_guardados t). K \<subseteq> claves_de (snd cu)))"

definition conserva_res :: "string set \<Rightarrow> paso_res \<Rightarrow> bool" where
  \<comment> \<open>The same of the turn a rule ends with, whether it returns or fails.\<close>
  "conserva_res K r = (case r of Inl (f, t) \<Rightarrow> conserva K t | Inr t \<Rightarrow> conserva K t)"

section \<open>Facts about the segmenter\<close>

lemma dividir_loop_sin_corte_aux:
  assumes ret: "dividir_loop n m acc = Some cs"
  shows "\<not> sin_corte n m"
proof (rule dividir_loop.raw_induct [where P = "\<lambda>n m acc cs. \<not> sin_corte n m", OF _ ret])
  fix f max_length mensaje trozos y
  assume IH: "\<And>a b c y. f a b c = Some y \<Longrightarrow> \<not> sin_corte a b"
    and body: "(if max_length < length mensaje
      then let corte = rfind CHR '' '' mensaje max_length;
               corte = if corte = - 1 then rfind CHR ''.'' mensaje max_length + 1 else corte;
               corte = if corte = - 1 then int max_length else corte
           in f max_length (strip (slice_from mensaje corte))
               (trozos @ [strip (slice_to mensaje corte)])
      else Some (trozos @ [mensaje])) = Some y"
  show "\<not> sin_corte max_length mensaje"
  proof
    assume s: "sin_corte max_length mensaje"
    then have "f max_length mensaje (trozos @ [strip []]) = Some y"
      using body by (simp add: sin_corte_def slice_from_def slice_to_def)
    then have "\<not> sin_corte max_length mensaje" by (rule IH)
    with s show False by simp
  qed
qed

lemma dividir_loop_sin_corte:
  "sin_corte n m \<Longrightarrow> dividir_loop n m acc = None"
  using dividir_loop_sin_corte_aux [of n m acc] by (cases "dividir_loop n m acc") auto

text \<open>
  C2. The claim: the segmenter terminates on every text for every maxLength of at least 1,
  and cuts hard at the limit when the window holds neither a space nor a sentence
  terminator. The code adds 1 to the result of the second \<open>rfind\<close>, so its test for -1
  never holds and the cut is at 0: on \<open>aaaa\<close> with limit 2 the message never shrinks and
  the loop never returns.
\<close>

theorem dividir_mensaje_hard_cut_diverges:
  "dividir_mensaje ''aaaa'' 2 = None"
  unfolding dividir_mensaje_def
  by (rule dividir_loop_sin_corte)
     (simp add: sin_corte_def rfind_def strip_def isspace_def)

lemma rfind_aux_range:
  "rfind_aux c xs k = -1 \<or> (int k \<le> rfind_aux c xs k \<and> rfind_aux c xs k < int k + int (length xs))"
  by (induction xs arbitrary: k) (fastforce simp: Let_def)+

lemma rfind_range: "rfind c s e = -1 \<or> (0 \<le> rfind c s e \<and> rfind c s e < int e)"
  using rfind_aux_range[of c "take e s" 0] by (auto simp: rfind_def)

lemma filter_dropWhile_not:
  "filter (\<lambda>c. \<not> P c) (dropWhile P xs) = filter (\<lambda>c. \<not> P c) xs"
  by (induction xs) auto

lemma filter_strip:
  "filter (\<lambda>c. \<not> isspace c) (strip s) = filter (\<lambda>c. \<not> isspace c) s"
proof -
  have "filter (\<lambda>c. \<not> isspace c) (strip s)
        = rev (filter (\<lambda>c. \<not> isspace c) (dropWhile isspace (rev (dropWhile isspace s))))"
    by (simp add: strip_def rev_filter)
  also have "\<dots> = rev (filter (\<lambda>c. \<not> isspace c) (rev (dropWhile isspace s)))"
    by (simp only: filter_dropWhile_not)
  also have "\<dots> = filter (\<lambda>c. \<not> isspace c) s"
    by (simp add: rev_filter[symmetric] filter_dropWhile_not)
  finally show ?thesis .
qed

lemma length_strip: "length (strip s) \<le> length s"
proof -
  have "length (dropWhile P xs) \<le> length xs" for P and xs :: string
    by (induction xs) auto
  from this[of isspace "rev (dropWhile isspace s)"] this[of isspace s]
  show ?thesis by (simp add: strip_def)
qed

lemma dividir_loop_chunks:
  assumes ret: "dividir_loop n m acc = Some cs"
  shows "(\<forall>c \<in> set acc. length c \<le> n) \<longrightarrow>
         (\<forall>c \<in> set cs. length c \<le> n) \<and> cs \<noteq> []
         \<and> sin_espacios (concat cs) = sin_espacios (concat acc @ m)"
proof (rule dividir_loop.raw_induct
    [where P = "\<lambda>n m acc cs. (\<forall>c \<in> set acc. length c \<le> n) \<longrightarrow>
         (\<forall>c \<in> set cs. length c \<le> n) \<and> cs \<noteq> []
         \<and> sin_espacios (concat cs) = sin_espacios (concat acc @ m)", OF _ ret])
  fix f max_length mensaje trozos y
  assume IH: "\<And>a b c y. f a b c = Some y \<Longrightarrow> (\<forall>x \<in> set c. length x \<le> a) \<longrightarrow>
         (\<forall>x \<in> set y. length x \<le> a) \<and> y \<noteq> []
         \<and> sin_espacios (concat y) = sin_espacios (concat c @ b)"
    and body: "(if max_length < length mensaje
      then let corte = rfind CHR '' '' mensaje max_length;
               corte = if corte = - 1 then rfind CHR ''.'' mensaje max_length + 1 else corte;
               corte = if corte = - 1 then int max_length else corte
           in f max_length (strip (slice_from mensaje corte))
               (trozos @ [strip (slice_to mensaje corte)])
      else Some (trozos @ [mensaje])) = Some y"
  show "(\<forall>c \<in> set trozos. length c \<le> max_length) \<longrightarrow>
         (\<forall>c \<in> set y. length c \<le> max_length) \<and> y \<noteq> []
         \<and> sin_espacios (concat y) = sin_espacios (concat trozos @ mensaje)"
  proof
    assume acc: "\<forall>c \<in> set trozos. length c \<le> max_length"
    show "(\<forall>c \<in> set y. length c \<le> max_length) \<and> y \<noteq> []
         \<and> sin_espacios (concat y) = sin_espacios (concat trozos @ mensaje)"
    proof (cases "max_length < length mensaje")
      case False
      with body acc show ?thesis by auto
    next
      case True
      define corte where "corte =
        (let corte = rfind CHR '' '' mensaje max_length;
             corte = if corte = - 1 then rfind CHR ''.'' mensaje max_length + 1 else corte
         in if corte = - 1 then int max_length else corte)"
      have c: "0 \<le> corte \<and> corte \<le> int max_length"
        using rfind_range[of "CHR '' ''" mensaje max_length] rfind_range[of "CHR ''.''" mensaje max_length]
        by (auto simp: corte_def Let_def)
      from body True have r: "f max_length (strip (slice_from mensaje corte))
               (trozos @ [strip (slice_to mensaje corte)]) = Some y"
        by (simp add: corte_def Let_def)
      have "length (strip (slice_to mensaje corte)) \<le> max_length"
      proof -
        have "nat corte \<le> max_length" using c by linarith
        moreover have "length (slice_to mensaje corte) \<le> nat corte"
          using c by (simp add: slice_to_def)
        ultimately show ?thesis
          using length_strip[of "slice_to mensaje corte"] by linarith
      qed
      with acc have "\<forall>x \<in> set (trozos @ [strip (slice_to mensaje corte)]). length x \<le> max_length"
        by auto
      with IH[OF r] have 1: "(\<forall>x \<in> set y. length x \<le> max_length) \<and> y \<noteq> []"
        and 2: "sin_espacios (concat y)
           = sin_espacios (concat (trozos @ [strip (slice_to mensaje corte)]) @ strip (slice_from mensaje corte))"
        by blast+
      have "slice_to mensaje corte @ slice_from mensaje corte = mensaje"
        using c by (simp add: slice_to_def slice_from_def)
      then have "sin_espacios (strip (slice_to mensaje corte)) @ sin_espacios (strip (slice_from mensaje corte))
                 = sin_espacios mensaje"
        unfolding sin_espacios_def filter_strip by (metis filter_append)
      with 2 have "sin_espacios (concat y) = sin_espacios (concat trozos @ mensaje)"
        by (simp add: sin_espacios_def)
      with 1 show ?thesis by simp
    qed
  qed
qed

lemma dividir_mensaje_chunks:
  "dividir_mensaje m n = Some cs \<Longrightarrow>
     (\<forall>c \<in> set cs. length c \<le> n) \<and> cs \<noteq> [] \<and> sin_espacios (concat cs) = sin_espacios m"
  using dividir_loop_chunks[of n m "[]" cs] by (simp add: dividir_mensaje_def)

text \<open>
  C3. The claim: for every text and every maxLength of at least 1 the chunks returned are
  at most maxLength long, they rebuild the text up to trimmed whitespace, and the final
  remainder is always emitted as the last chunk. Whenever the code returns, the first two
  hold (\<open>dividir_mensaje_chunks\<close>); but on a text whose window holds neither a space nor
  a full stop it never returns, so nothing is emitted: a link of 34 characters with limit
  10 is such a text. The defect is the one of C2.
\<close>

theorem dividir_mensaje_url_diverges:
  "dividir_mensaje ''https://example.com/cotizacion/123'' 10 = None"
  unfolding dividir_mensaje_def
  by (rule dividir_loop_sin_corte)
     (simp add: sin_corte_def rfind_def strip_def isspace_def)

lemma dividir_mensaje_ejemplo:
  "dividir_mensaje ''uno dos. tres'' 5 = Some [''uno'', ''dos.'', ''tres'']"
  by (simp add: dividir_mensaje_def dividir_loop.simps rfind_def strip_def isspace_def
      slice_to_def slice_from_def)

section \<open>Facts about the date functions\<close>




lemma is_digit_latin: "c < 1632 \<Longrightarrow> is_digit c = (48 \<le> c \<and> c \<le> 57)"
  by (auto simp add: is_digit_def ceros_decimales_def)

lemma digit_val_latin: "c < 1632 \<Longrightarrow> digit_val c = (if 48 \<le> c \<and> c \<le> 57 then c - 48 else 0)"
  by (simp add: digit_val_def ceros_decimales_def)

























lemmas fecha_eval = codigos_def validar_fecha_def fecha_sql_def strptime_def re_dmY_def is_digit_latin
  is_nonzero_digit_def digit_val_latin fecha_posible_def days_in_month_def is_leap_def
  strftime_def pad2_def digit_char_def str_nat.simps

lemma digitos_de_otras_escrituras:
  "is_digit 0x665" "digit_val 0x665 = 5" "is_digit 0x662" "digit_val 0x662 = 2"
  "is_digit 0xFF10" "digit_val 0xFF10 = 0" "is_digit 0xFF12" "digit_val 0xFF12 = 2"
  "is_digit 0xFF14" "digit_val 0xFF14 = 4"
  by (simp_all add: is_digit_def digit_val_def ceros_decimales_def)

lemma validar_fecha_otras_escrituras:
  "validar_fecha (codigos ''25-12-'' @ [0xFF12, 0xFF10, 0xFF12, 0xFF14])
     = Some \<lparr>anio = 2024, mes = 12, dia = 25\<rparr>"
  "validar_fecha (codigos ''1'' @ [0x665] @ codigos ''/12/2024'')
     = Some \<lparr>anio = 2024, mes = 12, dia = 15\<rparr>"
  "validar_fecha ([0x662, 0x665] @ codigos ''-12-2024'') = None"
  "validar_fecha (codigos ''25-1'' @ [0x662] @ codigos ''-2024'') = None"
  by (simp_all add: fecha_eval digitos_de_otras_escrituras)




section \<open>Facts about the shortcut table\<close>

lemma keys_foldl_update:
  "fst ` set (foldl (\<lambda>h opcion. AList.update (k opcion) (v opcion) h) h0 ops) = fst ` set h0 \<union> k ` set ops"
  by (induction ops arbitrary: h0) (auto simp: dom_update)

lemma map_of_foldl_update_const:
  "map_of (foldl (\<lambda>h opcion. AList.update (lower opcion) p h) h0 ops) key =
     (if key \<in> lower ` set ops then Some p else map_of h0 key)"
  by (induction ops arbitrary: h0) (auto simp: update_conv')

lemma map_of_foldl_update:
  "map_of (foldl (\<lambda>h opcion. AList.update (lower opcion) (v (lower opcion)) h) h0 ops) key =
     (if key \<in> lower ` set ops then Some (v key) else map_of h0 key)"
  by (induction ops arbitrary: h0) (auto simp: update_conv')

lemma agregar_opciones_alt:
  "agregar_opciones h ops pd =
     foldl (\<lambda>h opcion. AList.update (lower opcion)
        ((\<lambda>k. case map_of (case pd of Pasos d \<Rightarrow> d
                | Paso p \<Rightarrow> foldl (\<lambda>d opcion. AList.update (lower opcion) p d) [] ops) k of
              Some p \<Rightarrow> p | None \<Rightarrow> ''start'') (lower opcion)) h) h ops"
proof -
  have "(if h \<noteq> [] then h else []) = h" by simp
  then show ?thesis by (simp add: agregar_opciones_def Let_def)
qed

lemma agregar_opciones_keys:
  "fst ` set (agregar_opciones h ops pd) = fst ` set h \<union> lower ` set ops"
  unfolding agregar_opciones_alt
  by (rule keys_foldl_update)

lemma agregar_opciones_map_of:
  "map_of (agregar_opciones h ops pd) key =
     (if key \<in> lower ` set ops
      then Some (case map_of (case pd of Pasos d \<Rightarrow> d
                | Paso p \<Rightarrow> foldl (\<lambda>d opcion. AList.update (lower opcion) p d) [] ops) key of
              Some p \<Rightarrow> p | None \<Rightarrow> ''start'')
      else map_of h key)"
  unfolding agregar_opciones_alt
  by (rule map_of_foldl_update)

lemma agregar_opciones_Paso:
  "map_of (agregar_opciones h ops (Paso p)) key =
     (if key \<in> lower ` set ops then Some p else map_of h key)"
  by (simp add: agregar_opciones_map_of map_of_foldl_update_const)

lemma agregar_opciones_aditiva:
  "(\<forall>k \<in> fst ` set h. k \<in> fst ` set (agregar_opciones h a pa))
   \<and> fst ` set (agregar_opciones h a pa) = fst ` set h \<union> lower ` set a
   \<and> (\<forall>opcion \<in> set a \<union> set b.
        \<exists>p. resolver (Some (agregar_opciones (agregar_opciones h a pa) b pb)) (lower opcion) step = p
           \<and> map_of (agregar_opciones (agregar_opciones h a pa) b pb) (lower opcion) = Some p)
   \<and> (\<forall>opcion \<in> set b.
        resolver (Some (agregar_opciones (agregar_opciones h a pa) b (Paso q))) (lower opcion) step = q)
   \<and> (\<forall>opcion \<in> set a. lower opcion \<notin> lower ` set b \<longrightarrow>
        resolver (Some (agregar_opciones (agregar_opciones h a (Paso p)) b pb)) (lower opcion) step = p)"
proof -
  have 1: "\<forall>k \<in> fst ` set h. k \<in> fst ` set (agregar_opciones h a pa)"
    by (simp add: agregar_opciones_keys)
  have 3: "\<forall>opcion \<in> set a \<union> set b.
        \<exists>p. resolver (Some (agregar_opciones (agregar_opciones h a pa) b pb)) (lower opcion) step = p
           \<and> map_of (agregar_opciones (agregar_opciones h a pa) b pb) (lower opcion) = Some p"
  proof
    fix opcion assume "opcion \<in> set a \<union> set b"
    then have "lower opcion \<in> fst ` set (agregar_opciones (agregar_opciones h a pa) b pb)"
      by (auto simp: agregar_opciones_keys)
    then obtain p where "map_of (agregar_opciones (agregar_opciones h a pa) b pb) (lower opcion) = Some p"
      by (metis domD dom_map_of_conv_image_fst)
    then show "\<exists>p. resolver (Some (agregar_opciones (agregar_opciones h a pa) b pb)) (lower opcion) step = p
           \<and> map_of (agregar_opciones (agregar_opciones h a pa) b pb) (lower opcion) = Some p"
      by (simp add: resolver_def)
  qed
  have 4: "\<forall>opcion \<in> set b.
        resolver (Some (agregar_opciones (agregar_opciones h a pa) b (Paso q))) (lower opcion) step = q"
    by (simp add: resolver_def agregar_opciones_Paso)
  have 5: "\<forall>opcion \<in> set a. lower opcion \<notin> lower ` set b \<longrightarrow>
        resolver (Some (agregar_opciones (agregar_opciones h a (Paso p)) b pb)) (lower opcion) step = p"
  proof (intro ballI impI)
    fix opcion assume o: "opcion \<in> set a" "lower opcion \<notin> lower ` set b"
    have "map_of (agregar_opciones (agregar_opciones h a (Paso p)) b pb) (lower opcion)
          = map_of (agregar_opciones h a (Paso p)) (lower opcion)"
      using o(2) by (simp add: agregar_opciones_map_of[of _ b])
    with o(1) show "resolver (Some (agregar_opciones (agregar_opciones h a (Paso p)) b pb)) (lower opcion) step = p"
      by (simp add: resolver_def agregar_opciones_Paso)
  qed
  from 1 3 4 5 show ?thesis by (simp add: agregar_opciones_keys)
qed

section \<open>Facts about a turn of the handler\<close>

lemmas turno_defs = usr_def responder_def enviar_def enviar_con_def enviar_respuesta_def
  guardar_usuario_def texto_def enviar_mensaje_telegram_def turno_inicial_def leer_def
  salida_de_def sin_efectos_def perfil_final_def Let_def

lemma despachar_fallback:
  "sin_regla master step m (u_modo (t_usuario t)) \<Longrightarrow>
   despachar env sender step nombre rol master developer m t = rule_fallback t"
  by (auto simp add: despachar_def sin_regla_def palabra_clave_def pasos_con_regla_def)

lemma despachar_confirmContinue:
  "\<not> condicion_start master ''confirmContinue'' m (u_modo (t_usuario t)) \<Longrightarrow> \<not> palabra_clave m \<Longrightarrow>
   despachar env sender ''confirmContinue'' nombre rol master developer m t = rule_confirmContinue m t"
  by (simp add: despachar_def palabra_clave_def)

lemma despachar_master:
  "master = ''ON'' \<Longrightarrow>
   despachar env sender ''master'' nombre rol master developer m t = rule_master sender nombre developer t"
  by (simp add: despachar_def condicion_start_def)

lemma lambda_handler_turno:
  assumes "recuperar_usuario env (e_chat_id ev) = Some u" and "bien_formado env ev"
  shows "lambda_handler env ev =
     terminar (e_chat_id ev)
       (despachar env (e_chat_id ev) (paso_resuelto ev u) (nombre_de ev u) (rol_de u) (master_de u)
          (developer_de u) (mensaje_de ev) (turno_inicial (u\<lparr>u_step := paso_resuelto ev u\<rparr>)))"
  using assms
  by (auto simp add: lambda_handler_def Let_def usr_def turno_inicial_def nombre_de_def
      mensaje_de_def paso_resuelto_def bien_formado_def)

lemma terminar_confirmContinue:
  "terminar sender (rule_confirmContinue m (turno_inicial u)) =
     \<lparr>s_resultado = respuesta_ok,
      s_enviados = [SendText (if m = ''cotiza'' then msg_podemos_cotizar else msg_gracias_contactarnos)],
      s_guardados = [(sender, u\<lparr>u_step := (if m = ''cotiza'' then ''start'' else ''finalizado''),
                                 u_modo := ''normal''\<rparr>)],
      s_instrucciones = []\<rparr>"
  by (simp add: rule_confirmContinue_def terminar_def turno_defs respuesta_ok_def
      msg_podemos_cotizar_def msg_gracias_contactarnos_def)

text \<open>
  C10, amended. For every stored profile and well-formed event whose resolved step is
  \<open>confirmContinue\<close>, when the message is not one of the keywords \<open>chatgpt\<close> and
  \<open>dr seguro\<close> and the start rule does not apply (it applies to \<open>hola\<close> and \<open>/start\<close> in
  normal mode with the master flag off): every message other than \<open>cotiza\<close>, \<open>si\<close>
  included, ends the turn with step \<open>finalizado\<close>, mode \<open>normal\<close> and the farewell as the
  only reply; \<open>cotiza\<close> ends it with step \<open>start\<close> and mode \<open>normal\<close>.
\<close>

theorem confirmContinue_turn:
  assumes "recuperar_usuario env (e_chat_id ev) = Some u" and "bien_formado env ev"
    and "paso_resuelto ev u = ''confirmContinue''"
    and "\<not> palabra_clave (mensaje_de ev)"
    and "\<not> condicion_start (master_de u) ''confirmContinue'' (mensaje_de ev) (u_modo u)"
  shows "s_resultado (lambda_handler env ev) = respuesta_ok
     \<and> map_option u_modo (perfil_final (lambda_handler env ev)) = Some ''normal''
     \<and> (if mensaje_de ev = ''cotiza''
         then s_enviados (lambda_handler env ev) = [SendText msg_podemos_cotizar]
            \<and> map_option u_step (perfil_final (lambda_handler env ev)) = Some ''start''
         else s_enviados (lambda_handler env ev) = [SendText msg_gracias_contactarnos]
            \<and> map_option u_step (perfil_final (lambda_handler env ev)) = Some ''finalizado'')"
proof -
  have "lambda_handler env ev =
     terminar (e_chat_id ev)
       (despachar env (e_chat_id ev) ''confirmContinue'' (nombre_de ev u) (rol_de u) (master_de u)
          (developer_de u) (mensaje_de ev) (turno_inicial (u\<lparr>u_step := ''confirmContinue''\<rparr>)))"
    using lambda_handler_turno[OF assms(1,2)] assms(3) by simp
  also have "\<dots> = terminar (e_chat_id ev)
       (rule_confirmContinue (mensaje_de ev) (turno_inicial (u\<lparr>u_step := ''confirmContinue''\<rparr>)))"
    using assms(4,5) by (subst despachar_confirmContinue) (simp_all add: turno_inicial_def)
  finally show ?thesis
    by (simp add: terminar_confirmContinue perfil_final_def)
qed

lemma terminar_fallback:
  "terminar sender (rule_fallback (turno_inicial u)) =
     \<lparr>s_resultado = respuesta_ok, s_enviados = [SendText msg_no_entiendo],
      s_guardados = [(sender, u\<lparr>u_step := ''start'', u_modo := ''normal''\<rparr>)],
      s_instrucciones = []\<rparr>"
  by (simp add: rule_fallback_def terminar_def turno_defs respuesta_ok_def msg_no_entiendo_def)

text \<open>
  C4, amended. An event without a chat or without a text produces no outbound action and
  writes no profile. For every stored profile and well-formed event such that no condition
  of the chain holds (the resolved step is none of the steps the chain names, the start
  rule and the keywords do not apply), the handler replies with the restart guidance alone
  and leaves the profile at step \<open>start\<close>, mode \<open>normal\<close>. Nothing is said of a step the
  chain names: there an input that matches no inner condition may be left unanswered.
\<close>

theorem fallback_turn:
  "(e_chat_id ev = [] \<or> e_text ev = [] \<longrightarrow>
      s_enviados (lambda_handler env ev) = [] \<and> s_guardados (lambda_handler env ev) = [])
   \<and> (recuperar_usuario env (e_chat_id ev) = Some u \<and> bien_formado env ev
       \<and> sin_regla (master_de u) (paso_resuelto ev u) (mensaje_de ev) (u_modo u) \<longrightarrow>
      s_resultado (lambda_handler env ev) = respuesta_ok
      \<and> s_enviados (lambda_handler env ev) = [SendText msg_no_entiendo]
      \<and> map_option u_step (perfil_final (lambda_handler env ev)) = Some ''start''
      \<and> map_option u_modo (perfil_final (lambda_handler env ev)) = Some ''normal'')"
proof (intro conjI impI)
  assume "e_chat_id ev = [] \<or> e_text ev = []"
  then show "s_enviados (lambda_handler env ev) = []" "s_guardados (lambda_handler env ev) = []"
    by (auto simp: lambda_handler_def sin_efectos_def)
next
  assume h: "recuperar_usuario env (e_chat_id ev) = Some u \<and> bien_formado env ev
       \<and> sin_regla (master_de u) (paso_resuelto ev u) (mensaje_de ev) (u_modo u)"
  then have "lambda_handler env ev =
     terminar (e_chat_id ev) (rule_fallback (turno_inicial (u\<lparr>u_step := paso_resuelto ev u\<rparr>)))"
    using lambda_handler_turno[of env ev u]
    by (simp add: despachar_fallback turno_inicial_def)
  then show "s_resultado (lambda_handler env ev) = respuesta_ok"
    "s_enviados (lambda_handler env ev) = [SendText msg_no_entiendo]"
    "map_option u_step (perfil_final (lambda_handler env ev)) = Some ''start''"
    "map_option u_modo (perfil_final (lambda_handler env ev)) = Some ''normal''"
    by (simp_all add: terminar_fallback perfil_final_def)
qed

lemma terminar_master:
  "terminar sender (rule_master sender nombre developer (turno_inicial u)) =
     \<lparr>s_resultado = respuesta_ok,
      s_enviados = [SendText (msg_hola_admin nombre), SendMenu msg_pregunta_rol (opciones_rol developer)],
      s_guardados = [(sender, u\<lparr>u_step := ''askedMaster'',
          u_cotiza := Some [],
          u_historial := Some (agregar_opciones (historial_de u) (opciones_rol developer) (Paso ''askedMaster'')),
          u_poliza := Some ''Salud''\<rparr>)],
      s_instrucciones = []\<rparr>"
  by (simp add: rule_master_def terminar_def turno_defs respuesta_ok_def opciones_rol_def historial_de_def)

text \<open>
  C6, amended. For every stored profile whose master flag is \<open>ON\<close> and every well-formed
  event whose step after the shortcut table is \<open>start\<close> or \<open>master\<close>, the turn is the
  master rule: the greeting, then the role menu, and the profile left at \<open>askedMaster\<close>.
\<close>

theorem master_turn:
  assumes "recuperar_usuario env (e_chat_id ev) = Some u" and "bien_formado env ev"
    and "master_de u = ''ON''"
    and "resolver (u_historial u) (mensaje_de ev) (u_step u) = ''start''
         \<or> resolver (u_historial u) (mensaje_de ev) (u_step u) = ''master''"
  shows "s_resultado (lambda_handler env ev) = respuesta_ok
     \<and> s_enviados (lambda_handler env ev)
         = [SendText (msg_hola_admin (nombre_de ev u)),
            SendMenu msg_pregunta_rol (opciones_rol (developer_de u))]
     \<and> map_option u_step (perfil_final (lambda_handler env ev)) = Some ''askedMaster''"
proof -
  have p: "paso_resuelto ev u = ''master''"
    using assms(3,4) by (auto simp: paso_resuelto_def)
  have "lambda_handler env ev =
     terminar (e_chat_id ev)
       (rule_master (e_chat_id ev) (nombre_de ev u) (developer_de u) (turno_inicial (u\<lparr>u_step := ''master''\<rparr>)))"
    using lambda_handler_turno[OF assms(1,2)] assms(3) by (simp add: p despachar_master)
  then show ?thesis
    by (simp add: terminar_master perfil_final_def)
qed

lemma lambda_handler_nuevo:
  assumes "recuperar_usuario env (e_chat_id ev) = None" and "bien_formado env ev"
    and "e_text ev = ''Hola''" "e_callback_data ev = None"
  shows "lambda_handler env ev =
     terminar (e_chat_id ev)
       (rule_start (e_chat_id ev) (e_first_name ev @ '' '' @ e_last_name ev) ''user''
          (guardar_usuario (e_chat_id ev)
             (turno_inicial (usuario_nuevo (e_first_name ev @ '' '' @ e_last_name ev)))))"
  using assms
  by (simp add: lambda_handler_def Let_def usr_def turno_inicial_def bien_formado_def
      obtener_boton_def lower_def lower_char_def usuario_nuevo_def rol_de_def master_de_def
      developer_de_def resolver_def despachar_def condicion_start_def guardar_usuario_def)

text \<open>
  The first \<open>Hola\<close> of any sender without a stored profile, whatever names the event
  carries: \<open>profile_name\<close> holds at least the space between the two names, so the
  profile is created under it and the branch for a user without a name is never taken.
\<close>

lemma hola_nuevo_turno:
  assumes "recuperar_usuario env (e_chat_id ev) = None" and "bien_formado env ev"
    and "e_text ev = ''Hola''" "e_callback_data ev = None"
  shows "s_resultado (lambda_handler env ev) = respuesta_ok
     \<and> s_enviados (lambda_handler env ev)
         = [SendText (msg_hola_usuario (e_first_name ev @ '' '' @ e_last_name ev)), SendText msg_pide_fecha]
     \<and> map_option u_step (perfil_final (lambda_handler env ev)) = Some ''askedBirthdate''
     \<and> map_option u_nombre (perfil_final (lambda_handler env ev))
         = Some (e_first_name ev @ '' '' @ e_last_name ev)
     \<and> s_guardados (lambda_handler env ev)
         = [(e_chat_id ev, usuario_nuevo (e_first_name ev @ '' '' @ e_last_name ev)),
            (e_chat_id ev, (usuario_nuevo (e_first_name ev @ '' '' @ e_last_name ev))
               \<lparr>u_step := ''askedBirthdate'', u_cotiza := Some [], u_poliza := Some ''Salud''\<rparr>)]"
  unfolding lambda_handler_nuevo[OF assms(1-4)]
  by (simp add: rule_start_def terminar_def turno_defs respuesta_ok_def usuario_nuevo_def
      msg_hola_usuario_def msg_pide_fecha_def)

lemmas ejemplo_defs = env_base_def con_usuario_def escribe_def escribe_anonimo_def usuario_en_def
  usuario_nuevo_def

lemmas handler_eval = lambda_handler_def despachar_def terminar_def turno_defs ejemplo_defs
  condicion_start_def resolver_def rol_de_def master_de_def developer_de_def obtener_boton_def
  numero_bot_def lower_def lower_char_def respuesta_ok_def

text \<open>
  C10, as stated, fails: at step \<open>confirmContinue\<close> the message \<open>chatgpt\<close> is not
  \<open>cotiza\<close>, yet the turn ends at \<open>waitForQuestion\<close> in mode \<open>chatgpt\<close>, with the
  invitation to ask as the reply: the keyword rule comes first in the chain.
\<close>

theorem confirmContinue_chatgpt:
  "s_enviados (lambda_handler (con_usuario ''42'' ((usuario_en ''confirmContinue'')\<lparr>u_modo := ''chatgpt''\<rparr>) env_base)
                 (escribe ''42'' ''chatgpt'')) = [SendText msg_adelante]
   \<and> map_option u_step (perfil_final (lambda_handler
         (con_usuario ''42'' ((usuario_en ''confirmContinue'')\<lparr>u_modo := ''chatgpt''\<rparr>) env_base)
         (escribe ''42'' ''chatgpt''))) = Some ''waitForQuestion''
   \<and> map_option u_modo (perfil_final (lambda_handler
         (con_usuario ''42'' ((usuario_en ''confirmContinue'')\<lparr>u_modo := ''chatgpt''\<rparr>) env_base)
         (escribe ''42'' ''chatgpt''))) = Some ''chatgpt''"
  by (simp add: handler_eval rule_chatgpt_def msg_adelante_def)

text \<open>
  C7. The claim: at \<open>askedMaster\<close> the keyword \<open>usuario\<close> sets the role to \<open>user\<close> and the
  mode to \<open>normal\<close>. The code compares where it means to assign: a master with role
  \<open>admin\<close> who answers \<open>Usuario\<close> is left with role \<open>admin\<close> at \<open>askedWelcome\<close>, and a
  master whose profile has no role the comparison stops with \<open>KeyError\<close>, nothing saved.
\<close>

theorem askedMaster_usuario_keeps_role:
  "map_option u_rol (perfil_final (lambda_handler
       (con_usuario ''42'' ((usuario_en ''askedMaster'')\<lparr>u_master := Some ''ON'', u_rol := Some ''admin''\<rparr>) env_base)
       (escribe ''42'' ''Usuario''))) = Some (Some ''admin'')
   \<and> map_option u_step (perfil_final (lambda_handler
       (con_usuario ''42'' ((usuario_en ''askedMaster'')\<lparr>u_master := Some ''ON'', u_rol := Some ''admin''\<rparr>) env_base)
       (escribe ''42'' ''Usuario''))) = Some ''askedWelcome''
   \<and> s_resultado (lambda_handler
       (con_usuario ''42'' ((usuario_en ''askedMaster'')\<lparr>u_master := Some ''ON''\<rparr>) env_base)
       (escribe ''42'' ''Usuario'')) = Excepcion (KeyError ''rol'')
   \<and> s_guardados (lambda_handler
       (con_usuario ''42'' ((usuario_en ''askedMaster'')\<lparr>u_master := Some ''ON''\<rparr>) env_base)
       (escribe ''42'' ''Usuario'')) = []"
  by (simp add: handler_eval rule_askedMaster_def msg_bienvenida_def msg_pide_nombre_def)

text \<open>
  C1. The claim: a failing collaborator gives an apology and the turn runs to its end; in
  particular at \<open>askedFamily\<close> when the PDF service fails. In the code \<open>generar_pdf\<close>
  re-raises and \<open>askedFamily\<close> calls it outside any \<open>try\<close>: with a quotation id in hand
  and the PDF service failing, the handler ends with \<open>HTTPError\<close> after the first status
  message, and no apology is sent.
\<close>

theorem askedFamily_pdf_failure_escapes:
  "s_resultado (lambda_handler
       (con_usuario ''42'' ((usuario_en ''askedFamily'')\<lparr>u_email := Some ''a@b.co'', u_sexo := Some ''f'',
            u_poliza := Some ''Salud'', u_fecha := ''25/12/1990''\<rparr>)
          (env_base\<lparr>generar_pdf := (\<lambda>id_cotizacion. Inl HTTPError)\<rparr>))
       (escribe ''42'' ''Continuar'')) = Excepcion HTTPError
   \<and> s_enviados (lambda_handler
       (con_usuario ''42'' ((usuario_en ''askedFamily'')\<lparr>u_email := Some ''a@b.co'', u_sexo := Some ''f'',
            u_poliza := Some ''Salud'', u_fecha := ''25/12/1990''\<rparr>)
          (env_base\<lparr>generar_pdf := (\<lambda>id_cotizacion. Inl HTTPError)\<rparr>))
       (escribe ''42'' ''Continuar'')) = [SendText msg_enviando_cotizacion]"
  by (simp add: handler_eval rule_askedFamily_def msg_enviando_cotizacion_def)

text \<open>
  C4, as stated, fails: a master at \<open>askedMaster\<close> who writes \<open>foo\<close> sends a well-formed
  event, no inner condition of the step matches, and the turn sends nothing and leaves the
  step at \<open>askedMaster\<close>: no restart guidance, no reset, no outbound action.
\<close>

theorem askedMaster_unknown_keyword_silent:
  "s_resultado (lambda_handler
       (con_usuario ''42'' ((usuario_en ''askedMaster'')\<lparr>u_master := Some ''ON''\<rparr>) env_base)
       (escribe ''42'' ''foo'')) = respuesta_ok
   \<and> s_enviados (lambda_handler
       (con_usuario ''42'' ((usuario_en ''askedMaster'')\<lparr>u_master := Some ''ON''\<rparr>) env_base)
       (escribe ''42'' ''foo'')) = []
   \<and> map_option u_step (perfil_final (lambda_handler
       (con_usuario ''42'' ((usuario_en ''askedMaster'')\<lparr>u_master := Some ''ON''\<rparr>) env_base)
       (escribe ''42'' ''foo''))) = Some ''askedMaster''"
  by (simp add: handler_eval rule_askedMaster_def)

text \<open>
  C6, as stated, fails: with the master flag \<open>ON\<close> and the stored step
  \<open>askedBirthdate\<close>, the message \<open>foo\<close> is handled by the rule of \<open>askedBirthdate\<close> (the
  date is refused and asked again), not by the master rule.
\<close>

theorem master_flag_keeps_stored_step:
  "s_enviados (lambda_handler
       (con_usuario ''42'' ((usuario_en ''askedBirthdate'')\<lparr>u_master := Some ''ON''\<rparr>) env_base)
       (escribe ''42'' ''foo'')) = [SendText msg_fecha_incorrecta]
   \<and> map_option u_step (perfil_final (lambda_handler
       (con_usuario ''42'' ((usuario_en ''askedBirthdate'')\<lparr>u_master := Some ''ON''\<rparr>) env_base)
       (escribe ''42'' ''foo''))) = Some ''askedBirthdate''"
  by (simp add: handler_eval rule_askedBirthdate_def msg_fecha_incorrecta_def fecha_eval)

text \<open>
  C5. The claim: the first \<open>Hola\<close> of a sender without a stored profile takes the branch
  for a user without a name: a welcome, then the request for the name, and the profile
  left at \<open>askedWelcome\<close>. The code tests \<open>profile_name == ""\<close> and \<open>nombre == ""\<close> for
  that branch, but \<open>profile_name\<close> is the two names joined by a space, which is never
  empty: a sender whose event carries no name at all gets a profile named by a single
  space, is greeted as \<open>Hola * *\<close> and asked for the date of birth, and the profile is
  left at \<open>askedBirthdate\<close>. The name is never asked.
\<close>

theorem hola_new_sender_unnamed:
  "recuperar_usuario env_base ''42'' = None
   \<and> s_enviados (lambda_handler env_base (escribe_anonimo ''42'' ''Hola''))
       = [SendText (msg_hola_usuario '' ''), SendText msg_pide_fecha]
   \<and> s_enviados (lambda_handler env_base (escribe_anonimo ''42'' ''Hola''))
       \<noteq> [SendText msg_bienvenida, SendText msg_pide_nombre]
   \<and> map_option u_step (perfil_final (lambda_handler env_base (escribe_anonimo ''42'' ''Hola'')))
       = Some ''askedBirthdate''
   \<and> map_option u_nombre (perfil_final (lambda_handler env_base (escribe_anonimo ''42'' ''Hola'')))
       = Some '' ''"
  by (simp add: handler_eval rule_start_def msg_hola_usuario_def msg_pide_fecha_def
      msg_bienvenida_def msg_pide_nombre_def)

text \<open>C10, amended, at a profile in assistant mode that answers \<open>Si\<close>.\<close>

theorem confirmContinue_turn_witness:
  "recuperar_usuario (con_usuario ''42'' ((usuario_en ''confirmContinue'')\<lparr>u_modo := ''chatgpt''\<rparr>) env_base) ''42''
     = Some ((usuario_en ''confirmContinue'')\<lparr>u_modo := ''chatgpt''\<rparr>)
   \<and> mensaje_de (escribe ''42'' ''Si'') = ''si''
   \<and> s_enviados (lambda_handler
        (con_usuario ''42'' ((usuario_en ''confirmContinue'')\<lparr>u_modo := ''chatgpt''\<rparr>) env_base)
        (escribe ''42'' ''Si'')) = [SendText msg_gracias_contactarnos]
   \<and> map_option u_step (perfil_final (lambda_handler
        (con_usuario ''42'' ((usuario_en ''confirmContinue'')\<lparr>u_modo := ''chatgpt''\<rparr>) env_base)
        (escribe ''42'' ''Si''))) = Some ''finalizado''"
proof -
  let ?u = "(usuario_en ''confirmContinue'')\<lparr>u_modo := ''chatgpt''\<rparr>"
  let ?env = "con_usuario ''42'' ?u env_base"
  let ?ev = "escribe ''42'' ''Si''"
  have m: "mensaje_de ?ev = ''si''"
    by (simp add: mensaje_de_def obtener_boton_def escribe_def lower_def lower_char_def)
  have 1: "recuperar_usuario ?env (e_chat_id ?ev) = Some ?u"
    by (simp add: con_usuario_def escribe_def)
  have 2: "bien_formado ?env ?ev"
    by (simp add: bien_formado_def escribe_def numero_bot_def)
  have 3: "paso_resuelto ?ev ?u = ''confirmContinue''"
    by (simp add: paso_resuelto_def resolver_def usuario_en_def usuario_nuevo_def master_de_def)
  have 4: "\<not> palabra_clave (mensaje_de ?ev)"
    by (simp add: m palabra_clave_def)
  have 5: "\<not> condicion_start (master_de ?u) ''confirmContinue'' (mensaje_de ?ev) (u_modo ?u)"
    by (simp add: m condicion_start_def)
  from confirmContinue_turn[OF 1 2 3 4 5] m 1 show ?thesis
    by (simp add: escribe_def)
qed

text \<open>C4, amended, at a profile left at \<open>finalizado\<close> whose owner writes \<open>gracias\<close>.\<close>

theorem fallback_turn_witness:
  "sin_regla (master_de (usuario_en ''finalizado'')) 
      (paso_resuelto (escribe ''42'' ''gracias'') (usuario_en ''finalizado''))
      (mensaje_de (escribe ''42'' ''gracias'')) (u_modo (usuario_en ''finalizado''))
   \<and> s_enviados (lambda_handler (con_usuario ''42'' (usuario_en ''finalizado'') env_base)
        (escribe ''42'' ''gracias'')) = [SendText msg_no_entiendo]
   \<and> map_option u_step (perfil_final (lambda_handler
        (con_usuario ''42'' (usuario_en ''finalizado'') env_base) (escribe ''42'' ''gracias'')))
       = Some ''start''
   \<and> s_enviados (lambda_handler env_base (escribe [] ''gracias'')) = []"
proof -
  let ?u = "usuario_en ''finalizado''"
  let ?env = "con_usuario ''42'' ?u env_base"
  let ?ev = "escribe ''42'' ''gracias''"
  have m: "mensaje_de ?ev = ''gracias''"
    by (simp add: mensaje_de_def obtener_boton_def escribe_def lower_def lower_char_def)
  have 1: "recuperar_usuario ?env (e_chat_id ?ev) = Some ?u"
    by (simp add: con_usuario_def escribe_def)
  have 2: "bien_formado ?env ?ev"
    by (simp add: bien_formado_def escribe_def numero_bot_def)
  have p: "paso_resuelto ?ev ?u = ''finalizado''"
    by (simp add: paso_resuelto_def resolver_def usuario_en_def usuario_nuevo_def master_de_def)
  have 3: "sin_regla (master_de ?u) (paso_resuelto ?ev ?u) (mensaje_de ?ev) (u_modo ?u)"
    by (simp add: p m sin_regla_def condicion_start_def palabra_clave_def pasos_con_regla_def)
  have 4: "e_chat_id (escribe [] ''gracias'') = []"
    by (simp add: escribe_def)
  from fallback_turn[of ?ev ?env ?u] fallback_turn[of "escribe [] ''gracias''" env_base ?u] 1 2 3 4
  show ?thesis by simp
qed

text \<open>C6, amended, at a master whose table sends \<open>hola\<close> to \<open>start\<close>.\<close>

theorem master_turn_witness:
  "master_de ((usuario_en ''askedBirthdate'')\<lparr>u_master := Some ''ON'',
       u_historial := Some [(''hola'', ''start''), (''/start'', ''start'')]\<rparr>) = ''ON''
   \<and> s_enviados (lambda_handler
        (con_usuario ''42'' ((usuario_en ''askedBirthdate'')\<lparr>u_master := Some ''ON'',
            u_historial := Some [(''hola'', ''start''), (''/start'', ''start'')]\<rparr>) env_base)
        (escribe ''42'' ''Hola''))
       = [SendText (msg_hola_admin ''Ana Perez''), SendMenu msg_pregunta_rol [''Usuario'', ''Asociado'', ''Master'']]
   \<and> map_option u_step (perfil_final (lambda_handler
        (con_usuario ''42'' ((usuario_en ''askedBirthdate'')\<lparr>u_master := Some ''ON'',
            u_historial := Some [(''hola'', ''start''), (''/start'', ''start'')]\<rparr>) env_base)
        (escribe ''42'' ''Hola''))) = Some ''askedMaster''"
proof -
  let ?u = "(usuario_en ''askedBirthdate'')\<lparr>u_master := Some ''ON'',
       u_historial := Some [(''hola'', ''start''), (''/start'', ''start'')]\<rparr>"
  let ?env = "con_usuario ''42'' ?u env_base"
  let ?ev = "escribe ''42'' ''Hola''"
  have m: "mensaje_de ?ev = ''hola''"
    by (simp add: mensaje_de_def obtener_boton_def escribe_def lower_def lower_char_def)
  have 1: "recuperar_usuario ?env (e_chat_id ?ev) = Some ?u"
    by (simp add: con_usuario_def escribe_def)
  have 2: "bien_formado ?env ?ev"
    by (simp add: bien_formado_def escribe_def numero_bot_def)
  have 3: "master_de ?u = ''ON''"
    by (simp add: master_de_def)
  have 4: "resolver (u_historial ?u) (mensaje_de ?ev) (u_step ?u) = ''start''
         \<or> resolver (u_historial ?u) (mensaje_de ?ev) (u_step ?u) = ''master''"
    by (simp add: m resolver_def)
  from master_turn[OF 1 2 3 4] 3 show ?thesis
    by (simp add: nombre_de_def developer_de_def opciones_rol_def usuario_en_def usuario_nuevo_def)
qed

section \<open>The shortcut table through a turn\<close>

text \<open>
  No rule of the chain removes a key of the table: the only assignments to \<open>historial\<close>
  register options onto the table the profile holds. The invariant \<open>conserva\<close> is kept by
  every statement of a rule, so by every rule, by the chain, and by the handler.
\<close>

lemma claves_agregar: "k \<in> claves h \<Longrightarrow> k \<in> claves (agregar_opciones h ops pd)"
  by (simp add: claves_def agregar_opciones_keys)

lemma claves_de_registrar:
  "claves_de u \<subseteq> claves (agregar_opciones (historial_de u) ops pd)"
  by (auto simp: claves_de_def historial_de_def claves_agregar split: option.splits)

lemma conserva_usr:
  "conserva K t \<Longrightarrow> claves_de (t_usuario t) \<subseteq> claves_de (f (t_usuario t))
   \<Longrightarrow> conserva K (usr f t)"
  by (auto simp: conserva_def usr_def)

lemma conserva_usr_same:
  "u_historial (f (t_usuario t)) = u_historial (t_usuario t) \<Longrightarrow> conserva K (usr f t) = conserva K t"
  by (auto simp: conserva_def usr_def claves_de_def)

lemma conserva_simps:
  "conserva K (responder s t) = conserva K t"
  "conserva K (enviar a t) = conserva K t"
  "conserva K (enviar_respuesta sender t) = conserva K t"
  "conserva K (enviar_con sender b u p ops t) = conserva K t"
  "conserva K (guardar_usuario c t) = conserva K t"
  "conserva K (t\<lparr>t_opciones := x1\<rparr>) = conserva K t"
  "conserva K (t\<lparr>t_botones := x2\<rparr>) = conserva K t"
  "conserva K (t\<lparr>t_url_pdf := x3\<rparr>) = conserva K t"
  "conserva K (t\<lparr>t_pdf_file := x4\<rparr>) = conserva K t"
  "conserva K (t\<lparr>t_instrucciones := x5\<rparr>) = conserva K t"
  by (auto simp: conserva_def responder_def enviar_def enviar_respuesta_def enviar_con_def
      guardar_usuario_def)

lemma conserva_registrar:
  "conserva K t \<Longrightarrow>
   conserva K (usr (\<lambda>u. u\<lparr>u_historial := Some (agregar_opciones (historial_de u) ops pd)\<rparr>) t)"
  using claves_de_registrar[of "t_usuario t" ops pd]
  by (intro conserva_usr) (simp_all add: claves_de_def)

lemma conserva_registrar_opciones:
  "conserva K t \<Longrightarrow>
   conserva K (usr (\<lambda>u. u\<lparr>u_historial := Some (agregar_opciones (historial_de u) ops pd),
                            u_opciones := x\<rparr>) t)"
  using claves_de_registrar[of "t_usuario t" ops pd]
  by (intro conserva_usr) (simp_all add: claves_de_def)

lemma conserva_foldl_enviar:
  "conserva K (foldl (\<lambda>t x. enviar (g x) t) t xs) = conserva K t"
  by (induction xs arbitrary: t) (simp_all add: conserva_simps)

lemma conserva_res_simps:
  "conserva_res K (Inr t) = conserva K t"
  "conserva_res K (Inl (f, t)) = conserva K t"
  by (simp_all add: conserva_res_def)

lemma conserva_res_leer:
  "conserva_res K (leer k v t g) =
     (case v of None \<Rightarrow> conserva K t | Some x \<Rightarrow> conserva_res K (g x))"
  by (cases v) (simp_all add: leer_def conserva_res_simps)

lemmas cons = conserva_simps conserva_res_simps conserva_res_leer conserva_usr_same
  conserva_registrar conserva_registrar_opciones conserva_foldl_enviar Let_def

lemma c_start: "conserva K t \<Longrightarrow> conserva_res K (rule_start sender nombre rol t)"
  by (simp add: rule_start_def cons)

lemma c_master: "conserva K t \<Longrightarrow> conserva_res K (rule_master sender nombre developer t)"
  by (simp add: rule_master_def cons)

lemma c_chatgpt: "conserva K t \<Longrightarrow> conserva_res K (rule_chatgpt t)"
  by (simp add: rule_chatgpt_def cons)

lemma c_askedWelcome: "conserva K t \<Longrightarrow> conserva_res K (rule_askedWelcome m t)"
  by (simp add: rule_askedWelcome_def cons)

lemma c_askedBirthdate: "conserva K t \<Longrightarrow> conserva_res K (rule_askedBirthdate m t)"
  by (simp add: rule_askedBirthdate_def cons split: option.splits)

lemma c_askedOnlyName: "conserva K t \<Longrightarrow> conserva_res K (rule_askedOnlyName env sender m t)"
  by (simp add: rule_askedOnlyName_def cons split: option.splits)

lemma c_askedName: "conserva K t \<Longrightarrow> conserva_res K (rule_askedName m t)"
  by (simp add: rule_askedName_def cons)

lemma c_askedEmail: "conserva K t \<Longrightarrow> conserva_res K (rule_askedEmail m t)"
  by (simp add: rule_askedEmail_def cons)

lemma c_askedSex: "conserva K t \<Longrightarrow> conserva_res K (rule_askedSex m t)"
  by (simp add: rule_askedSex_def cons)

lemma c_askBenefit: "conserva K t \<Longrightarrow> conserva_res K (rule_askBenefit m t)"
  by (simp add: rule_askBenefit_def cons)

lemma c_askedParent: "conserva K t \<Longrightarrow> conserva_res K (rule_askedParent m t)"
  by (simp add: rule_askedParent_def cons)

lemma c_askedBirthdateParent:
  "conserva K t \<Longrightarrow> conserva_res K (rule_askedBirthdateParent env sender m t)"
  by (simp add: rule_askedBirthdateParent_def cons split: option.splits)

lemma c_askedFamily_fin: "conserva K t \<Longrightarrow> conserva_res K (askedFamily_fin sender t)"
  by (simp add: askedFamily_fin_def cons split: option.splits)

lemma c_askedFamily_segunda:
  "conserva K t \<Longrightarrow> conserva_res K (askedFamily_segunda env sender email sexo t)"
  by (simp add: askedFamily_segunda_def cons c_askedFamily_fin split: sum.splits)

lemma c_askedFamily: "conserva K t \<Longrightarrow> conserva_res K (rule_askedFamily env sender t)"
  by (simp add: rule_askedFamily_def cons c_askedFamily_segunda split: option.splits sum.splits)

lemma c_end: "conserva K t \<Longrightarrow> conserva_res K (rule_end rol t)"
  by (simp add: rule_end_def cons split: option.splits)

lemma c_additionalHelp: "conserva K t \<Longrightarrow> conserva_res K (rule_additionalHelp env rol m t)"
  by (simp add: rule_additionalHelp_def cons)

lemma c_endCotiza: "conserva K t \<Longrightarrow> conserva_res K (rule_endCotiza t)"
  by (simp add: rule_endCotiza_def cons)

lemma c_waitForQuestion:
  "conserva K t \<Longrightarrow> conserva_res K (rule_waitForQuestion env sender rol m t)"
  by (simp add: rule_waitForQuestion_def cons split: option.splits)

lemma c_confirmContinue: "conserva K t \<Longrightarrow> conserva_res K (rule_confirmContinue m t)"
  by (simp add: rule_confirmContinue_def cons)

lemma c_askedAdmin: "conserva K t \<Longrightarrow> conserva_res K (rule_askedAdmin sender m t)"
  by (simp add: rule_askedAdmin_def cons)

lemma c_askedMaster:
  "conserva K t \<Longrightarrow> conserva_res K (rule_askedMaster sender nombre developer m t)"
  by (simp add: rule_askedMaster_def cons split: option.splits)

lemma c_askedTrainer: "conserva K t \<Longrightarrow> conserva_res K (rule_askedTrainer env sender m t)"
  by (simp add: rule_askedTrainer_def cons split: option.splits)

lemma c_gandalf: "conserva K t \<Longrightarrow> conserva_res K (rule_gandalf sender t)"
  by (simp add: rule_gandalf_def cons)

lemma c_sub_category_selection:
  "conserva K t \<Longrightarrow> conserva_res K (rule_sub_category_selection m t)"
  by (simp add: rule_sub_category_selection_def cons split: option.splits)

lemma c_company_selection: "conserva K t \<Longrightarrow> conserva_res K (rule_company_selection t)"
  by (simp add: rule_company_selection_def cons)

lemma c_abrir_carpeta: "conserva K t \<Longrightarrow> conserva_res K (abrir_carpeta env m t)"
  by (simp add: abrir_carpeta_def cons split: option.splits list.splits)

lemma c_document_choice: "conserva K t \<Longrightarrow> conserva_res K (rule_document_choice env m t)"
  by (simp add: rule_document_choice_def cons c_abrir_carpeta split: option.splits)

lemma c_fallback: "conserva K t \<Longrightarrow> conserva_res K (rule_fallback t)"
  by (simp add: rule_fallback_def cons)

lemmas c_rules = c_start c_master c_chatgpt c_askedWelcome c_askedBirthdate c_askedOnlyName
  c_askedName c_askedEmail c_askedSex c_askBenefit c_askedParent c_askedBirthdateParent
  c_askedFamily c_end c_additionalHelp c_endCotiza c_waitForQuestion c_confirmContinue
  c_askedAdmin c_askedMaster c_askedTrainer c_gandalf c_sub_category_selection
  c_company_selection c_document_choice c_fallback

lemma c_despachar:
  "conserva K t \<Longrightarrow>
   conserva_res K (despachar env sender step nombre rol master developer m t)"
  by (simp add: despachar_def c_rules)

lemma c_terminar:
  "conserva_res K r \<Longrightarrow>
   \<forall>cu \<in> set (s_guardados (terminar sender r)). K \<subseteq> claves_de (snd cu)"
  by (auto simp: conserva_res_def terminar_def salida_de_def conserva_def guardar_usuario_def
      enviar_respuesta_def enviar_def Let_def split: sum.splits prod.splits fallo.splits)

lemma lambda_handler_conserva:
  assumes "recuperar_usuario env (e_chat_id ev) = Some u"
  shows "\<forall>cu \<in> set (s_guardados (lambda_handler env ev)). claves_de u \<subseteq> claves_de (snd cu)"
proof (cases "e_chat_id ev = [] \<or> e_text ev = [] \<or> e_chat_id ev = numero_bot")
  case True
  then show ?thesis
    using assms
    by (auto simp: lambda_handler_def Let_def sin_efectos_def salida_de_def turno_inicial_def)
next
  case False
  then have b: "bien_formado env ev" by (simp add: bien_formado_def)
  have 0: "conserva (claves_de u) (turno_inicial (u\<lparr>u_step := x\<rparr>))" for x
    by (simp add: conserva_def turno_inicial_def claves_de_def)
  show ?thesis
    unfolding lambda_handler_turno[OF assms b]
    by (rule c_terminar[OF c_despachar[OF 0]])
qed

text \<open>
  C9. Registering the options of a menu never removes a key of the shortcut table: the
  keys afterwards are the keys before together with the lower-cased options, so every
  option is stored lower-cased. After registering menu \<open>a\<close> and then menu \<open>b\<close>, the
  lower-cased label of every option of either menu is a key and the lookup before
  dispatch resolves it to a step: an option of \<open>b\<close> to the step of \<open>b\<close>, an option of
  \<open>a\<close> that \<open>b\<close> does not repeat to the step of \<open>a\<close>. A turn of the handler removes no
  key either: every profile that a turn writes to the store holds every key of the
  profile that the turn found there.
\<close>

theorem historial_additive:
  "(\<forall>k \<in> fst ` set h. k \<in> fst ` set (agregar_opciones h a pa))
   \<and> fst ` set (agregar_opciones h a pa) = fst ` set h \<union> lower ` set a
   \<and> (\<forall>opcion \<in> set a \<union> set b.
        \<exists>p. resolver (Some (agregar_opciones (agregar_opciones h a pa) b pb)) (lower opcion) step = p
           \<and> map_of (agregar_opciones (agregar_opciones h a pa) b pb) (lower opcion) = Some p)
   \<and> (\<forall>opcion \<in> set b.
        resolver (Some (agregar_opciones (agregar_opciones h a pa) b (Paso q))) (lower opcion) step = q)
   \<and> (\<forall>opcion \<in> set a. lower opcion \<notin> lower ` set b \<longrightarrow>
        resolver (Some (agregar_opciones (agregar_opciones h a (Paso p)) b pb)) (lower opcion) step = p)
   \<and> (recuperar_usuario env (e_chat_id ev) = Some u \<longrightarrow>
        (\<forall>cu \<in> set (s_guardados (lambda_handler env ev)). claves_de u \<subseteq> claves_de (snd cu)))"
  using agregar_opciones_aditiva[of h a pa b pb step q p] lambda_handler_conserva[of env ev u]
  by blast

text \<open>
  C9 at the role menu followed by an area menu, on a table that holds \<open>hola\<close>; and at the
  turn of a master who has been shown the role menu and answers \<open>Asociado\<close>: the area
  menu is registered, the profile written holds the keys of both menus and \<open>hola\<close>, and
  an option of either menu resolves to the step of its menu.
\<close>

theorem historial_additive_witness:
  "agregar_opciones [(''hola'', ''start'')] [''Usuario'', ''Master''] (Paso ''askedMaster'')
     = [(''hola'', ''start''), (''usuario'', ''askedMaster''), (''master'', ''askedMaster'')]
   \<and> resolver (Some (agregar_opciones
        (agregar_opciones [(''hola'', ''start'')] [''Usuario'', ''Master''] (Paso ''askedMaster''))
        [''Riesgos''] (Paso ''askedAdmin''))) ''usuario'' ''start'' = ''askedMaster''
   \<and> resolver (Some (agregar_opciones
        (agregar_opciones [(''hola'', ''start'')] [''Usuario'', ''Master''] (Paso ''askedMaster''))
        [''Riesgos''] (Paso ''askedAdmin''))) ''riesgos'' ''start'' = ''askedAdmin''
   \<and> ''hola'' \<in> fst ` set (agregar_opciones [(''hola'', ''start'')] [''Usuario'', ''Master''] (Paso ''askedMaster''))
   \<and> recuperar_usuario (con_usuario ''42'' master_con_menu env_base) ''42'' = Some master_con_menu
   \<and> map fst (historial_de master_con_menu) = [''hola'', ''usuario'', ''asociado'', ''master'']
   \<and> map (\<lambda>cu. map fst (historial_de (snd cu)))
        (s_guardados (lambda_handler (con_usuario ''42'' master_con_menu env_base)
           (escribe ''42'' ''Asociado'')))
       = [[''hola'', ''usuario'', ''asociado'', ''master'', ''riesgos'', ''soporte al cliente'',
           ''administracion'', ''hablar con tubot'']]
   \<and> map (\<lambda>cu. resolver (u_historial (snd cu)) ''usuario'' ''start'')
        (s_guardados (lambda_handler (con_usuario ''42'' master_con_menu env_base)
           (escribe ''42'' ''Asociado''))) = [''askedMaster'']
   \<and> map (\<lambda>cu. resolver (u_historial (snd cu)) ''riesgos'' ''start'')
        (s_guardados (lambda_handler (con_usuario ''42'' master_con_menu env_base)
           (escribe ''42'' ''Asociado''))) = [''askedAdmin'']"
  using historial_additive [of "[(''hola'', ''start'')]" "[''Usuario'', ''Master'']"
      "Paso ''askedMaster''" "[''Riesgos'']" "Paso ''askedAdmin''" "''start''" "''askedAdmin''"
      "''askedMaster''" "con_usuario ''42'' master_con_menu env_base" "escribe ''42'' ''Asociado''"
      master_con_menu]
  by (simp add: handler_eval master_con_menu_def rule_askedMaster_def agregar_opciones_def
      historial_de_def opciones_area_def msg_pregunta_area_def)

end
